theory Spec2Isabelle
  imports Complex_Main "HOL-Library.Word"
begin

section \<open>Go values shared by the packages\<close>

text \<open>
  A Go \<open>error\<close> is an interface value that is either nil or a concrete error. A
  concrete error is modelled by its identity (a label, unique per error value, as the
  pointer returned by \<open>errors.New\<close> is) and by what its \<open>Unwrap\<close> method returns.
  A possibly-nil error is an \<open>error option\<close>, with \<open>None\<close> for nil.
  Durations and instants are \<open>int\<close> (nanoseconds).
\<close>

datatype error = Error string "error option"

primrec ident :: "error \<Rightarrow> string" where
  "ident (Error i u) = i"

primrec Unwrap :: "error \<Rightarrow> error option" where
  "Unwrap (Error i u) = u"

text \<open>
  \<open>errors.Is(err, target)\<close>: when either side is nil the result is \<open>err == target\<close>;
  otherwise the unwrap chain of \<open>err\<close> is walked and each link compared with the
  target. (Custom \<open>Is\<close> methods and multi-errors are not used by this repository.)
\<close>

fun is_chain :: "error \<Rightarrow> error \<Rightarrow> bool" where
  "is_chain (Error i u) t =
     (Error i u = t \<or> (case u of None \<Rightarrow> False | Some e \<Rightarrow> is_chain e t))"

definition errors_Is :: "error option \<Rightarrow> error option \<Rightarrow> bool" where
  "errors_Is err target =
     (case err of
        None \<Rightarrow> err = target
      | Some e \<Rightarrow> (case target of None \<Rightarrow> err = target | Some t \<Rightarrow> is_chain e t))"

text \<open>\<open>errors.New(text)\<close> and \<open>fmt.Errorf("...: %w", err)\<close>.\<close>

definition errors_New :: "string \<Rightarrow> error" where
  "errors_New s = Error s None"

definition wrap_error :: "string \<Rightarrow> error \<Rightarrow> error" where
  "wrap_error s e = Error s (Some e)"

text \<open>The sentinels of package \<open>context\<close>.\<close>

definition context_DeadlineExceeded :: error where
  "context_DeadlineExceeded = errors_New ''context deadline exceeded''"

definition context_Canceled :: error where
  "context_Canceled = errors_New ''context canceled''"

text \<open>
  The Go runtime the code calls into, taken as a parameter: the clock, and the
  operations of package \<open>context\<close>. \<open>'c\<close> is the type of contexts and \<open>'e\<close> the
  state of everything outside the library (the clock, cancellation signals, whatever
  the user function touches). \<open>select_Done_or_Timer ctx d\<close> blocks as the
  \<open>select\<close> of \<open>contextWaiter\<close> does, on \<open>ctx.Done()\<close> and on a timer of duration
  \<open>d\<close>, and tells whether the \<open>Done\<close> case was taken.
\<close>

record ('c, 'e) runtime =
  time_Now :: "'e \<Rightarrow> int"
  ctx_Err :: "'c \<Rightarrow> 'e \<Rightarrow> error option"
  context_WithTimeout :: "'c \<Rightarrow> int \<Rightarrow> 'e \<Rightarrow> 'c"
  context_WithCancel :: "'c \<Rightarrow> 'e \<Rightarrow> 'c"
  cancel :: "'c \<Rightarrow> 'e \<Rightarrow> 'e"
  select_Done_or_Timer :: "'c \<Rightarrow> int \<Rightarrow> 'e \<Rightarrow> bool \<times> 'e"

text \<open>
  A user function \<open>fn(ctx) (T, error)\<close>: it runs against the outside state and either
  panics (\<open>Inl\<close> of the panic value) or returns a result and a possibly-nil error.
\<close>

type_synonym ('c, 'e, 't) userfn = "'c \<Rightarrow> 'e \<Rightarrow> (string + ('t \<times> error option)) \<times> 'e"

section \<open>Package backoff\<close>

text \<open>
  The \<open>Backoff\<close> interface: \<open>Next(attempt uint) time.Duration\<close>. A strategy may draw
  random numbers, so the interface value is a function of the outside state.
\<close>

type_synonym 'e Backoff = "64 word \<Rightarrow> 'e \<Rightarrow> int \<times> 'e"

record Linear =
  linear_interval :: int

definition NewLinear :: "int \<Rightarrow> Linear" where
  "NewLinear i = \<lparr>linear_interval = i\<rparr>"

text \<open>\<open>time.Duration(attempt) * l.interval\<close>, a product of two 64-bit integers.\<close>

definition Linear_Next :: "Linear \<Rightarrow> 64 word \<Rightarrow> int" where
  "Linear_Next l attempt = sint (attempt * (word_of_int (linear_interval l) :: 64 word))"

definition Linear_Backoff :: "Linear \<Rightarrow> 'e Backoff" where
  "Linear_Backoff l = (\<lambda>attempt e. (Linear_Next l attempt, e))"

record Fixed =
  fixed_interval :: int

definition NewFixed :: "int \<Rightarrow> Fixed" where
  "NewFixed d = \<lparr>fixed_interval = d\<rparr>"

definition Fixed_Next :: "Fixed \<Rightarrow> 64 word \<Rightarrow> int" where
  "Fixed_Next f attempt = fixed_interval f"

definition time_Millisecond :: int where
  "time_Millisecond = 1000000"

definition time_Second :: int where
  "time_Second = 1000000000"

section \<open>Package retry: the policy\<close>

record ValidationError =
  ValidationError_Field :: string
  ValidationError_Message :: string

text \<open>
  \<open>'m\<close> is the type of metrics reporters; a nil interface or function field is
  \<open>None\<close>. The allow and deny lists are slices of errors, whose entries may be nil.
\<close>

record ('t, 'e, 'm) Policy =
  name :: string
  metrics :: "'m option"
  maxAttempts :: int
  attemptTimeout :: int
  backoff :: "'e Backoff option"
  retryOnResultPredicate :: "('t \<Rightarrow> bool) option"
  retryOnErrorPredicate :: "(error \<Rightarrow> bool) option"
  retryErrors :: "error option list"
  ignoreErrors :: "error option list"

type_synonym ('t, 'e, 'm) Option = "('t, 'e, 'm) Policy \<Rightarrow> ('t, 'e, 'm) Policy"

definition WithMetrics :: "'m option \<Rightarrow> ('t, 'e, 'm) Option" where
  "WithMetrics m = (\<lambda>p. p\<lparr>metrics := m\<rparr>)"

definition WithMaxAttempts :: "int \<Rightarrow> ('t, 'e, 'm) Option" where
  "WithMaxAttempts attempts = (\<lambda>p. p\<lparr>maxAttempts := attempts\<rparr>)"

definition WithAttemptTimeout :: "int \<Rightarrow> ('t, 'e, 'm) Option" where
  "WithAttemptTimeout timeout = (\<lambda>p. p\<lparr>attemptTimeout := timeout\<rparr>)"

definition WithBackoff :: "'e Backoff option \<Rightarrow> ('t, 'e, 'm) Option" where
  "WithBackoff f = (\<lambda>p. p\<lparr>backoff := f\<rparr>)"

definition WithRetryOnResultPredicate :: "('t \<Rightarrow> bool) option \<Rightarrow> ('t, 'e, 'm) Option" where
  "WithRetryOnResultPredicate predicate = (\<lambda>p. p\<lparr>retryOnResultPredicate := predicate\<rparr>)"

definition WithRetryOnErrorPredicate :: "(error \<Rightarrow> bool) option \<Rightarrow> ('t, 'e, 'm) Option" where
  "WithRetryOnErrorPredicate predicate = (\<lambda>p. p\<lparr>retryOnErrorPredicate := predicate\<rparr>)"

definition WithRetryErrors :: "error option list \<Rightarrow> ('t, 'e, 'm) Option" where
  "WithRetryErrors errors = (\<lambda>p. p\<lparr>retryErrors := errors\<rparr>)"

definition WithIgnoreErrors :: "error option list \<Rightarrow> ('t, 'e, 'm) Option" where
  "WithIgnoreErrors errors = (\<lambda>p. p\<lparr>ignoreErrors := errors\<rparr>)"

definition Validate :: "('t, 'e, 'm) Policy \<Rightarrow> ValidationError option" where
  "Validate p =
     (if maxAttempts p < 1
      then Some \<lparr>ValidationError_Field = ''maxAttempts'',
                  ValidationError_Message = ''must be at least 1''\<rparr>
      else if backoff p = None
      then Some \<lparr>ValidationError_Field = ''backoff'',
                  ValidationError_Message = ''backoff must be set''\<rparr>
      else None)"

text \<open>
  \<open>NewPolicy\<close> starts from the zero-valued struct with the name, three attempts and
  a linear backoff of 100ms, runs the options in order, and validates.
\<close>

definition NewPolicy :: "string \<Rightarrow> ('t, 'e, 'm) Option list \<Rightarrow> ValidationError + ('t, 'e, 'm) Policy" where
  "NewPolicy nm options =
     (let b = NewLinear (100 * time_Millisecond);
          policy0 = \<lparr>name = nm, metrics = None, maxAttempts = 3, attemptTimeout = 0,
                     backoff = Some (Linear_Backoff b),
                     retryOnResultPredicate = None, retryOnErrorPredicate = None,
                     retryErrors = [], ignoreErrors = []\<rparr>;
          policy = fold (\<lambda>option p. option p) options policy0
      in case Validate policy of Some err \<Rightarrow> Inl err | None \<Rightarrow> Inr policy)"

text \<open>
  \<open>ShouldRetryError\<close>. The two \<open>for\<close> loops return at the first match, so each is
  the existence of a matching entry.
\<close>

definition ShouldRetryError :: "('t, 'e, 'm) Policy \<Rightarrow> error option \<Rightarrow> bool" where
  "ShouldRetryError p err =
     (case err of
        None \<Rightarrow> False
      | Some e \<Rightarrow>
          (case retryOnErrorPredicate p of
             Some predicate \<Rightarrow> predicate e
           | None \<Rightarrow>
               if list_ex (\<lambda>ignoreErr. errors_Is err ignoreErr) (ignoreErrors p) then False
               else if length (retryErrors p) > 0
               then list_ex (\<lambda>retryErr. errors_Is err retryErr) (retryErrors p)
               else True))"

section \<open>Package backoff: the exponential strategy\<close>

text \<open>
  A \<open>float64\<close> is a finite number, an infinity, or NaN. Which finite numbers the
  format represents is left to the rounding below; the sign of zero is not modelled.
\<close>

datatype float64 = Fin real | PosInf | NegInf | NaN

text \<open>
  The float64 arithmetic that the Go runtime and package \<open>math\<close> supply is a
  parameter: \<open>round64\<close> rounds the exact result of an operation or a conversion to
  float64 (to nearest, overflowing to an infinity), \<open>math_Pow\<close> is \<open>math.Pow\<close>, and
  \<open>int64_of_unrepresentable\<close> is the implementation-dependent result of converting a
  NaN, an infinity or a number outside the range of \<open>int64\<close> to \<open>int64\<close>.
\<close>

record float_ops =
  round64 :: "real \<Rightarrow> float64"
  math_Pow :: "float64 \<Rightarrow> float64 \<Rightarrow> float64"
  int64_of_unrepresentable :: "float64 \<Rightarrow> 64 word"

text \<open>The comparison \<open>a > b\<close>: false when an operand is NaN.\<close>

definition fgt :: "float64 \<Rightarrow> float64 \<Rightarrow> bool" where
  "fgt a b =
     (case a of
        NaN \<Rightarrow> False
      | NegInf \<Rightarrow> False
      | PosInf \<Rightarrow> (case b of Fin y \<Rightarrow> True | NegInf \<Rightarrow> True | PosInf \<Rightarrow> False | NaN \<Rightarrow> False)
      | Fin x \<Rightarrow> (case b of Fin y \<Rightarrow> x > y | NegInf \<Rightarrow> True | PosInf \<Rightarrow> False | NaN \<Rightarrow> False))"

text \<open>The product, the sum and the difference of two float64, each rounded once.\<close>

definition fmul :: "float_ops \<Rightarrow> float64 \<Rightarrow> float64 \<Rightarrow> float64" where
  "fmul ops a b =
     (case a of
        NaN \<Rightarrow> NaN
      | Fin x \<Rightarrow>
          (case b of
             NaN \<Rightarrow> NaN
           | Fin y \<Rightarrow> round64 ops (x * y)
           | PosInf \<Rightarrow> if x = 0 then NaN else if x > 0 then PosInf else NegInf
           | NegInf \<Rightarrow> if x = 0 then NaN else if x > 0 then NegInf else PosInf)
      | PosInf \<Rightarrow>
          (case b of
             NaN \<Rightarrow> NaN
           | Fin y \<Rightarrow> if y = 0 then NaN else if y > 0 then PosInf else NegInf
           | PosInf \<Rightarrow> PosInf
           | NegInf \<Rightarrow> NegInf)
      | NegInf \<Rightarrow>
          (case b of
             NaN \<Rightarrow> NaN
           | Fin y \<Rightarrow> if y = 0 then NaN else if y > 0 then NegInf else PosInf
           | PosInf \<Rightarrow> NegInf
           | NegInf \<Rightarrow> PosInf))"

definition fneg :: "float64 \<Rightarrow> float64" where
  "fneg a = (case a of NaN \<Rightarrow> NaN | Fin x \<Rightarrow> Fin (- x) | PosInf \<Rightarrow> NegInf | NegInf \<Rightarrow> PosInf)"

definition fadd :: "float_ops \<Rightarrow> float64 \<Rightarrow> float64 \<Rightarrow> float64" where
  "fadd ops a b =
     (case a of
        NaN \<Rightarrow> NaN
      | Fin x \<Rightarrow> (case b of Fin y \<Rightarrow> round64 ops (x + y) | other \<Rightarrow> other)
      | PosInf \<Rightarrow> (case b of NaN \<Rightarrow> NaN | NegInf \<Rightarrow> NaN | other \<Rightarrow> PosInf)
      | NegInf \<Rightarrow> (case b of NaN \<Rightarrow> NaN | PosInf \<Rightarrow> NaN | other \<Rightarrow> NegInf))"

definition fsub :: "float_ops \<Rightarrow> float64 \<Rightarrow> float64 \<Rightarrow> float64" where
  "fsub ops a b = fadd ops a (fneg b)"

text \<open>The built-in \<open>max\<close> on float64: NaN when an operand is NaN.\<close>

definition fmax :: "float64 \<Rightarrow> float64 \<Rightarrow> float64" where
  "fmax a b = (if a = NaN \<or> b = NaN then NaN else if fgt a b then a else b)"

text \<open>
  The conversions \<open>float64(d)\<close> of a \<open>time.Duration\<close> and \<open>float64(n)\<close> of a \<open>uint\<close>
  round the integer to float64.
\<close>

definition float64_of_int :: "float_ops \<Rightarrow> int \<Rightarrow> float64" where
  "float64_of_int ops i = round64 ops (real_of_int i)"

definition float64_of_uint :: "float_ops \<Rightarrow> 64 word \<Rightarrow> float64" where
  "float64_of_uint ops n = round64 ops (real (unat n))"

text \<open>
  The conversion \<open>time.Duration(x)\<close> of a float64 discards the fraction (truncation
  towards zero) when the result is in the range of \<open>int64\<close>; otherwise its result
  depends on the implementation.
\<close>

definition truncate_real :: "real \<Rightarrow> int" where
  "truncate_real x = (if 0 \<le> x then \<lfloor>x\<rfloor> else \<lceil>x\<rceil>)"

definition Duration_of_float :: "float_ops \<Rightarrow> float64 \<Rightarrow> int" where
  "Duration_of_float ops x =
     (case x of
        Fin r \<Rightarrow>
          if - (2 ^ 63) \<le> truncate_real r \<and> truncate_real r < 2 ^ 63 then truncate_real r
          else sint (int64_of_unrepresentable ops x)
      | other \<Rightarrow> sint (int64_of_unrepresentable ops x))"

text \<open>
  \<open>Exponential\<close>. The two intervals are \<open>time.Duration\<close>, that is \<open>int64\<close>; they
  are only read here, so they are integers of the model.
\<close>

record Exponential =
  initialInterval :: int
  maxInterval :: int
  multiplier :: float64
  jitter :: float64

type_synonym ExponentialOption = "Exponential \<Rightarrow> Exponential"

definition WithInitialInterval :: "int \<Rightarrow> ExponentialOption" where
  "WithInitialInterval d = (\<lambda>e. e\<lparr>initialInterval := d\<rparr>)"

definition WithMaxInterval :: "int \<Rightarrow> ExponentialOption" where
  "WithMaxInterval d = (\<lambda>e. e\<lparr>maxInterval := d\<rparr>)"


definition WithJitter :: "float64 \<Rightarrow> ExponentialOption" where
  "WithJitter j = (\<lambda>e. e\<lparr>jitter := j\<rparr>)"


text \<open>
  \<open>Next\<close>. The argument \<open>rnd\<close> is the number \<open>rand.Float64()\<close> returns, read only
  when the jitter is positive. \<open>attempt - 1\<close> is a subtraction of \<open>uint\<close> (64 bits
  wide) and wraps. Every operation rounds on its own: a compiler that fuses the
  product and the sum of the jitter branch is not modelled.
\<close>

definition Exponential_Next :: "float_ops \<Rightarrow> Exponential \<Rightarrow> float64 \<Rightarrow> 64 word \<Rightarrow> int" where
  "Exponential_Next ops e rnd attempt =
     (let interval0 = fmul ops (float64_of_int ops (initialInterval e))
                        (math_Pow ops (multiplier e) (float64_of_uint ops (attempt - 1)));
          interval1 = (if fgt (jitter e) (Fin 0)
                       then (let jit = fmul ops (fmul ops interval0 (jitter e))
                                         (fsub ops (fmul ops (Fin 2) rnd) (Fin 1))
                             in fmax (Fin 0) (fadd ops interval0 jit))
                       else interval0);
          interval2 = (if fgt interval1 (float64_of_int ops (maxInterval e))
                       then float64_of_int ops (maxInterval e) else interval1)
      in Duration_of_float ops interval2)"

section \<open>Package circuitbreaker: the count window\<close>

datatype CallOutcome = OutcomeSuccess | OutcomeFailure | OutcomeSlowSuccess | OutcomeSlowFailure

text \<open>
  The \<open>Window\<close> interface. An interface value carries its receiver (\<open>self\<close>) and its
  methods; a method that may panic returns an option, \<open>None\<close> for the panic. The
  repository holds two declarations of the interface; \<open>CountWindow\<close> implements the
  one whose \<open>CallRates\<close> returns the total, the success rate, the failure rate and the
  slow-call rate, which is the one modelled.
\<close>

record 'w Window =
  self :: 'w
  Size :: "'w \<Rightarrow> int"
  RecordOutcome :: "CallOutcome \<Rightarrow> 'w \<Rightarrow> 'w option"
  CallRates :: "'w \<Rightarrow> int \<times> real \<times> real \<times> real"
  Reset :: "'w \<Rightarrow> 'w"

definition window_Size :: "'w Window \<Rightarrow> int" where
  "window_Size v = Size v (self v)"

definition window_RecordOutcome :: "CallOutcome \<Rightarrow> 'w Window \<Rightarrow> 'w Window option" where
  "window_RecordOutcome outcome v =
     (case RecordOutcome v outcome (self v) of None \<Rightarrow> None | Some s \<Rightarrow> Some (v\<lparr>self := s\<rparr>))"

definition window_CallRates :: "'w Window \<Rightarrow> int \<times> real \<times> real \<times> real" where
  "window_CallRates v = CallRates v (self v)"

definition window_Reset :: "'w Window \<Rightarrow> 'w Window" where
  "window_Reset v = v\<lparr>self := Reset v (self v)\<rparr>"

text \<open>
  \<open>container/ring\<close>: a ring of \<open>n\<close> elements is the list of their values and the
  index of the current element; \<open>ring.New(n)\<close> is the nil ring when \<open>n \<le> 0\<close>, and
  the values of a new ring are nil.
\<close>

record Ring =
  slots :: "CallOutcome option list"
  cur :: nat

definition ring_New :: "int \<Rightarrow> Ring option" where
  "ring_New n = (if n \<le> 0 then None else Some \<lparr>slots = replicate (nat n) None, cur = 0\<rparr>)"

definition ring_Len :: "Ring option \<Rightarrow> int" where
  "ring_Len r = (case r of None \<Rightarrow> 0 | Some x \<Rightarrow> int (length (slots x)))"

definition ring_Next :: "Ring \<Rightarrow> Ring" where
  "ring_Next r = r\<lparr>cur := (cur r + 1) mod length (slots r)\<rparr>"

record CountWindow =
  ring :: "Ring option"
  successCount :: "32 word"
  failureCount :: "32 word"
  slowCallCount :: "32 word"

definition NewCountWindow :: "int \<Rightarrow> CountWindow" where
  "NewCountWindow n = \<lparr>ring = ring_New n, successCount = 0, failureCount = 0, slowCallCount = 0\<rparr>"

definition decrementOutcome :: "CountWindow \<Rightarrow> CallOutcome \<Rightarrow> CountWindow" where
  "decrementOutcome w outcome =
     (case outcome of
        OutcomeSuccess \<Rightarrow> w\<lparr>successCount := successCount w - 1\<rparr>
      | OutcomeFailure \<Rightarrow> w\<lparr>failureCount := failureCount w - 1\<rparr>
      | OutcomeSlowSuccess \<Rightarrow> w\<lparr>successCount := successCount w - 1, slowCallCount := slowCallCount w - 1\<rparr>
      | OutcomeSlowFailure \<Rightarrow> w\<lparr>failureCount := failureCount w - 1, slowCallCount := slowCallCount w - 1\<rparr>)"

definition incrementOutcome :: "CountWindow \<Rightarrow> CallOutcome \<Rightarrow> CountWindow" where
  "incrementOutcome w outcome =
     (case outcome of
        OutcomeSuccess \<Rightarrow> w\<lparr>successCount := successCount w + 1\<rparr>
      | OutcomeFailure \<Rightarrow> w\<lparr>failureCount := failureCount w + 1\<rparr>
      | OutcomeSlowSuccess \<Rightarrow> w\<lparr>successCount := successCount w + 1, slowCallCount := slowCallCount w + 1\<rparr>
      | OutcomeSlowFailure \<Rightarrow> w\<lparr>failureCount := failureCount w + 1, slowCallCount := slowCallCount w + 1\<rparr>)"

text \<open>
  \<open>RecordOutcome\<close> reads \<open>w.ring.Value\<close> first, which panics on the nil ring. The
  type assertion succeeds exactly when the slot holds an outcome.
\<close>

definition CountWindow_RecordOutcome :: "CallOutcome \<Rightarrow> CountWindow \<Rightarrow> CountWindow option" where
  "CountWindow_RecordOutcome outcome w =
     (case ring w of
        None \<Rightarrow> None
      | Some r \<Rightarrow>
          (let w1 = (case slots r ! cur r of
                       Some oldOutcome \<Rightarrow> decrementOutcome w oldOutcome
                     | None \<Rightarrow> w);
               r1 = r\<lparr>slots := (slots r)[cur r := Some outcome]\<rparr>;
               w2 = incrementOutcome w1 outcome
           in Some (w2\<lparr>ring := Some (ring_Next r1)\<rparr>)))"

definition CountWindow_Size :: "CountWindow \<Rightarrow> int" where
  "CountWindow_Size w = sint (successCount w + failureCount w)"

definition CountWindow_Reset :: "CountWindow \<Rightarrow> CountWindow" where
  "CountWindow_Reset w =
     w\<lparr>ring := ring_New (ring_Len (ring w)), successCount := 0, failureCount := 0, slowCallCount := 0\<rparr>"

text \<open>
  \<open>CallRates\<close>. The rates and the thresholds of the breaker are \<open>float64\<close>; for the
  window and the breaker they are real numbers, and the quotients are exact (the
  rounding of float64 is modelled for the exponential backoff only).
\<close>

definition CountWindow_CallRates :: "CountWindow \<Rightarrow> int \<times> real \<times> real \<times> real" where
  "CountWindow_CallRates w =
     (let totalCalls = CountWindow_Size w in
      if totalCalls = 0 then (0, 0, 0, 0)
      else
        (let successRate = (real_of_int (sint (successCount w)) / real_of_int totalCalls) * 100;
             failureRate = (real_of_int (sint (failureCount w)) / real_of_int totalCalls) * 100;
             slowCallRate = (real_of_int (sint (slowCallCount w)) / real_of_int totalCalls) * 100
         in (totalCalls, successRate, failureRate, slowCallRate)))"

definition CountWindow_Window :: "CountWindow \<Rightarrow> CountWindow Window" where
  "CountWindow_Window w =
     \<lparr>self = w, Size = CountWindow_Size, RecordOutcome = CountWindow_RecordOutcome,
      CallRates = CountWindow_CallRates, Reset = CountWindow_Reset\<rparr>"

text \<open>A sequence of operations on a window, stopping at a panic.\<close>

datatype window_op = Record CallOutcome | ResetOp

fun apply_op :: "window_op \<Rightarrow> CountWindow \<Rightarrow> CountWindow option" where
  "apply_op (Record outcome) w = CountWindow_RecordOutcome outcome w"
| "apply_op ResetOp w = Some (CountWindow_Reset w)"

fun apply_ops :: "window_op list \<Rightarrow> CountWindow \<Rightarrow> CountWindow option" where
  "apply_ops [] w = Some w"
| "apply_ops (x # xs) w = (case apply_op x w of None \<Rightarrow> None | Some w1 \<Rightarrow> apply_ops xs w1)"

section \<open>Package circuitbreaker: the state machine\<close>

datatype State = StateClosed | StateHalfOpen | StateOpen | StateMetricsOnly

definition ErrOpenState :: error where
  "ErrOpenState = errors_New ''circuitbreaker: open state''"

definition ErrHalfOpenState :: error where
  "ErrHalfOpenState = errors_New ''circuitbreaker: half-open state with no available calls''"

definition IsCallNotPermittedError :: "error option \<Rightarrow> bool" where
  "IsCallNotPermittedError err =
     (errors_Is err (Some ErrOpenState) \<or> errors_Is err (Some ErrHalfOpenState))"

text \<open>
  \<open>Config\<close>. Its \<open>Metrics\<close> field is left out: the breaker never reads it.
  \<open>'t\<close> is the type of call results.
\<close>

record ('w, 't) Config =
  Window :: "'w Window"
  MetricsOnlyMode :: bool
  MinimumNumberOfCalls :: int
  FailureRateThreshold :: real
  SlowCallRateThreshold :: real
  SlowCallDurationThreshold :: int
  PermittedNumberOfCallsInHalfOpenState :: int
  WaitDurationInOpenState :: int
  FailOnResultPredicate :: "('t \<Rightarrow> bool) option"
  FailOnErrorPredicate :: "(error \<Rightarrow> bool) option"
  FailErrors :: "error option list"
  IgnoreErrors :: "error option list"

type_synonym ('w, 't) BreakerOption = "('w, 't) Config \<Rightarrow> ('w, 't) Config"

definition defaultConfig :: "(CountWindow, 't) Config" where
  "defaultConfig =
     \<lparr>Window = CountWindow_Window (NewCountWindow 100),
      MetricsOnlyMode = False,
      MinimumNumberOfCalls = 20,
      FailureRateThreshold = 50,
      SlowCallRateThreshold = 50,
      SlowCallDurationThreshold = 10 * time_Second,
      PermittedNumberOfCallsInHalfOpenState = 10,
      WaitDurationInOpenState = 60 * time_Second,
      FailOnResultPredicate = None,
      FailOnErrorPredicate = None,
      FailErrors = [],
      IgnoreErrors = []\<rparr>"

definition WithMetricsOnlyMode :: "('w, 't) BreakerOption" where
  "WithMetricsOnlyMode = (\<lambda>c. c\<lparr>MetricsOnlyMode := True\<rparr>)"

definition WithWindow :: "'w Window \<Rightarrow> ('w, 't) BreakerOption" where
  "WithWindow w = (\<lambda>c. c\<lparr>Window := w\<rparr>)"

definition WithMinimumNumberOfCalls :: "int \<Rightarrow> ('w, 't) BreakerOption" where
  "WithMinimumNumberOfCalls n = (\<lambda>c. c\<lparr>MinimumNumberOfCalls := n\<rparr>)"

definition WithFailureRateThreshold :: "real \<Rightarrow> ('w, 't) BreakerOption" where
  "WithFailureRateThreshold threshold = (\<lambda>c. c\<lparr>FailureRateThreshold := threshold\<rparr>)"

definition WithSlowCallRateThreshold :: "real \<Rightarrow> ('w, 't) BreakerOption" where
  "WithSlowCallRateThreshold threshold = (\<lambda>c. c\<lparr>SlowCallRateThreshold := threshold\<rparr>)"

definition WithSlowCallDurationThreshold :: "int \<Rightarrow> ('w, 't) BreakerOption" where
  "WithSlowCallDurationThreshold duration = (\<lambda>c. c\<lparr>SlowCallDurationThreshold := duration\<rparr>)"

definition WithPermittedNumberOfCallsInHalfOpenState :: "int \<Rightarrow> ('w, 't) BreakerOption" where
  "WithPermittedNumberOfCallsInHalfOpenState n = (\<lambda>c. c\<lparr>PermittedNumberOfCallsInHalfOpenState := n\<rparr>)"

definition WithWaitDurationInOpenState :: "int \<Rightarrow> ('w, 't) BreakerOption" where
  "WithWaitDurationInOpenState duration = (\<lambda>c. c\<lparr>WaitDurationInOpenState := duration\<rparr>)"

definition WithFailOnResultPredicate :: "('t \<Rightarrow> bool) option \<Rightarrow> ('w, 't) BreakerOption" where
  "WithFailOnResultPredicate predicate = (\<lambda>c. c\<lparr>FailOnResultPredicate := predicate\<rparr>)"

definition WithFailOnErrorPredicate :: "(error \<Rightarrow> bool) option \<Rightarrow> ('w, 't) BreakerOption" where
  "WithFailOnErrorPredicate predicate = (\<lambda>c. c\<lparr>FailOnErrorPredicate := predicate\<rparr>)"

definition WithFailErrors :: "error option list \<Rightarrow> ('w, 't) BreakerOption" where
  "WithFailErrors errors = (\<lambda>c. c\<lparr>FailErrors := errors\<rparr>)"

definition WithBreakerIgnoreErrors :: "error option list \<Rightarrow> ('w, 't) BreakerOption" where
  "WithBreakerIgnoreErrors errors = (\<lambda>c. c\<lparr>IgnoreErrors := errors\<rparr>)"

text \<open>
  \<open>circuitBreakerImpl\<close>. The mutex is not modelled: \<open>before\<close> and \<open>after\<close> hold it
  for their whole critical section, so each is one atomic step on the record. The zero
  \<open>time.Time\<close> is instant 0.
\<close>

record ('w, 't) circuitBreakerImpl =
  cb_name :: string
  window :: "'w Window"
  config :: "('w, 't) Config"
  state :: State
  transitionTime :: int
  halfOpenCompletedLeases :: int
  halfOpenLeases :: int

text \<open>
  \<open>New\<close>. The default window is a \<open>CountWindow\<close>, so the options of one call all
  configure windows over that receiver type.
\<close>

definition New :: "string \<Rightarrow> (CountWindow, 't) BreakerOption list \<Rightarrow> (CountWindow, 't) circuitBreakerImpl" where
  "New nm opts =
     (let cfg = fold (\<lambda>opt c. opt c) opts defaultConfig
      in \<lparr>cb_name = nm, window = Window cfg, config = cfg, state = StateClosed,
          transitionTime = 0, halfOpenCompletedLeases = 0, halfOpenLeases = 0\<rparr>)"

text \<open>
  The methods take the instant \<open>now\<close> that the clock shows during the call:
  \<open>time.Now()\<close> is \<open>now\<close> and \<open>time.Since(t)\<close> is \<open>now - t\<close>. The clock reads of
  one critical section are taken at the same instant.
\<close>

definition setStateUnsafe :: "int \<Rightarrow> State \<Rightarrow> ('w, 't) circuitBreakerImpl \<Rightarrow> ('w, 't) circuitBreakerImpl" where
  "setStateUnsafe now st cb =
     (if state cb = st then cb
      else
        (let cb1 = (if st = StateHalfOpen
                    then cb\<lparr>halfOpenLeases := PermittedNumberOfCallsInHalfOpenState (config cb),
                            halfOpenCompletedLeases := 0\<rparr>
                    else cb)
         in cb1\<lparr>state := st, transitionTime := now, window := window_Reset (window cb1)\<rparr>))"

definition before :: "int \<Rightarrow> ('w, 't) circuitBreakerImpl \<Rightarrow> error option \<times> ('w, 't) circuitBreakerImpl" where
  "before now cb =
     (let cb1 = (if state cb = StateOpen \<and> now - transitionTime cb \<ge> WaitDurationInOpenState (config cb)
                 then setStateUnsafe now StateHalfOpen cb else cb)
      in case state cb1 of
           StateOpen \<Rightarrow> (Some ErrOpenState, cb1)
         | StateHalfOpen \<Rightarrow>
             if halfOpenLeases cb1 \<le> 0 then (Some ErrHalfOpenState, cb1)
             else (None, cb1\<lparr>halfOpenLeases := halfOpenLeases cb1 - 1\<rparr>)
         | _ \<Rightarrow> (None, cb1))"

definition shouldFailCall :: "('w, 't) Config \<Rightarrow> 't \<Rightarrow> error option \<Rightarrow> bool" where
  "shouldFailCall cfg res err =
     (case err of
        Some e \<Rightarrow>
          if (case FailOnErrorPredicate cfg of None \<Rightarrow> False | Some predicate \<Rightarrow> predicate e) then True
          else if list_ex (\<lambda>failErr. errors_Is err failErr) (FailErrors cfg) then True
          else if list_ex (\<lambda>ignoreErr. errors_Is err ignoreErr) (IgnoreErrors cfg) then False
          else True
      | None \<Rightarrow>
          (case FailOnResultPredicate cfg of
             Some predicate \<Rightarrow> predicate res
           | None \<Rightarrow> False))"

text \<open>
  \<open>areThresholdsExceededUnsafe\<close>. The source writes
  \<open>_, failureRate, slowRate := cb.window.CallRates()\<close>, against the declaration of the
  interface whose \<open>CallRates\<close> returns three rates (success, failure, slow call). With
  the declaration that \<open>CountWindow\<close> implements the total comes first, and
  \<open>failureRate\<close> and \<open>slowRate\<close> are bound to the failure rate and the slow-call rate
  all the same.
\<close>

definition areThresholdsExceededUnsafe :: "('w, 't) circuitBreakerImpl \<Rightarrow> bool" where
  "areThresholdsExceededUnsafe cb =
     (case window_CallRates (window cb) of
        (totalCalls, successRate, failureRate, slowRate) \<Rightarrow>
          failureRate \<ge> FailureRateThreshold (config cb) \<or> slowRate \<ge> SlowCallRateThreshold (config cb))"

definition evaluateStateTransitionUnsafe :: "int \<Rightarrow> ('w, 't) circuitBreakerImpl \<Rightarrow> ('w, 't) circuitBreakerImpl" where
  "evaluateStateTransitionUnsafe now cb =
     (case state cb of
        StateClosed \<Rightarrow>
          if window_Size (window cb) \<ge> MinimumNumberOfCalls (config cb) \<and> areThresholdsExceededUnsafe cb
          then setStateUnsafe now StateOpen cb else cb
      | StateHalfOpen \<Rightarrow>
          if halfOpenCompletedLeases cb \<ge> PermittedNumberOfCallsInHalfOpenState (config cb)
          then (if areThresholdsExceededUnsafe cb
                then setStateUnsafe now StateOpen cb
                else setStateUnsafe now StateClosed cb)
          else cb
      | _ \<Rightarrow> cb)"

definition classify_outcome :: "bool \<Rightarrow> bool \<Rightarrow> CallOutcome" where
  "classify_outcome isFailure isSlow =
     (if isFailure \<and> isSlow then OutcomeSlowFailure
      else if isFailure then OutcomeFailure
      else if isSlow then OutcomeSlowSuccess
      else OutcomeSuccess)"

text \<open>\<open>after\<close>; \<open>None\<close> when the window's \<open>RecordOutcome\<close> panics.\<close>

definition after :: "int \<Rightarrow> 't \<Rightarrow> error option \<Rightarrow> int \<Rightarrow> ('w, 't) circuitBreakerImpl
    \<Rightarrow> ('w, 't) circuitBreakerImpl option" where
  "after now res err duration cb =
     (let isFailure = shouldFailCall (config cb) res err;
          isSlow = (duration \<ge> SlowCallDurationThreshold (config cb));
          outcome = classify_outcome isFailure isSlow
      in case window_RecordOutcome outcome (window cb) of
           None \<Rightarrow> None
         | Some w1 \<Rightarrow>
             (let cb1 = cb\<lparr>window := w1\<rparr>;
                  cb2 = (if state cb1 = StateHalfOpen \<and> \<not> IsCallNotPermittedError err
                         then cb1\<lparr>halfOpenCompletedLeases := halfOpenCompletedLeases cb1 + 1\<rparr>
                         else cb1)
              in Some (evaluateStateTransitionUnsafe now cb2)))"

section \<open>Package circuitbreaker: the executor\<close>

text \<open>\<open>PanicError{Recover: r, Cause: cause}\<close>; its \<open>Unwrap\<close> is the cause.\<close>

definition PanicError :: "string \<Rightarrow> error option \<Rightarrow> error" where
  "PanicError r cause = Error (''circuitbreaker: panic occurred: '' @ r) cause"

text \<open>
  \<open>safeExecute\<close> of the breaker: a panic of \<open>fn\<close> is recovered into a \<open>PanicError\<close>
  whose cause is the named result \<open>err\<close>, still nil when \<open>fn\<close> panics.
\<close>

definition cb_safeExecute :: "('c, 'e) runtime \<Rightarrow> 'c \<Rightarrow> ('c, 'e, 't) userfn \<Rightarrow> 't \<Rightarrow> 'e
    \<Rightarrow> ('t \<times> error option) \<times> 'e" where
  "cb_safeExecute R ctx fn zero e =
     (if ctx_Err R ctx e \<noteq> None then ((zero, ctx_Err R ctx e), e)
      else case fn ctx e of
             (Inl r, e1) \<Rightarrow> ((zero, Some (PanicError r None)), e1)
           | (Inr (res, err), e1) \<Rightarrow> ((res, err), e1))"

text \<open>
  \<open>Execute\<close> returns what the Go function returns (\<open>None\<close> when \<open>after\<close> panics),
  the breaker and the outside state it leaves.
\<close>

definition cb_Execute :: "('c, 'e) runtime \<Rightarrow> 't \<Rightarrow> 'c \<Rightarrow> ('w, 't) circuitBreakerImpl
    \<Rightarrow> ('c, 'e, 't) userfn \<Rightarrow> 'e
    \<Rightarrow> ('t \<times> error option) option \<times> ('w, 't) circuitBreakerImpl \<times> 'e" where
  "cb_Execute R zero ctx cb fn e =
     (case before (time_Now R e) cb of
        (Some err, cb1) \<Rightarrow> (Some (zero, Some err), cb1, e)
      | (None, cb1) \<Rightarrow>
          (let start = time_Now R e in
           case cb_safeExecute R ctx fn zero e of
             ((res, err), e1) \<Rightarrow>
               (case after (time_Now R e1) res err (time_Now R e1 - start) cb1 of
                  None \<Rightarrow> (None, cb1, e1)
                | Some cb2 \<Rightarrow> (Some (res, err), cb2, e1))))"

section \<open>Package retry: the engine\<close>

text \<open>The string-typed labels of the metrics records.\<close>

definition OutcomeStatusSuccess :: string where "OutcomeStatusSuccess = ''success''"
definition OutcomeStatusError :: string where "OutcomeStatusError = ''error''"

definition OutcomeFailureReasonExhausted :: string where "OutcomeFailureReasonExhausted = ''exhausted''"
definition OutcomeFailureReasonTimeout :: string where "OutcomeFailureReasonTimeout = ''timeout''"
definition OutcomeFailureReasonCanceled :: string where "OutcomeFailureReasonCanceled = ''canceled''"
definition OutcomeFailureReasonNonRetryable :: string where "OutcomeFailureReasonNonRetryable = ''non_retryable''"

definition AttemptStatusSuccess :: string where "AttemptStatusSuccess = ''success''"
definition AttemptStatusError :: string where "AttemptStatusError = ''error''"

definition AttemptFailureReasonError :: string where "AttemptFailureReasonError = ''error''"
definition AttemptFailureReasonTimeout :: string where "AttemptFailureReasonTimeout = ''timeout''"
definition AttemptFailureReasonCanceled :: string where "AttemptFailureReasonCanceled = ''canceled''"
definition AttemptFailureReasonResult :: string where "AttemptFailureReasonResult = ''result''"

text \<open>
  The records \<open>Attempt\<close> and \<open>Outcome\<close>. The field \<open>Error\<close> of \<open>Attempt\<close> is
  \<open>Error_of\<close> here, and the fields that \<open>Outcome\<close> shares with \<open>Attempt\<close> carry the
  prefix \<open>Outcome_\<close>. The zero value of a label is the empty string.
\<close>

record Attempt =
  PolicyName :: string
  Number :: int
  Timestamp :: int
  Duration :: int
  Status :: string
  FailureReason :: string
  Error_of :: "error option"
  Retryable :: bool

record Outcome =
  Outcome_PolicyName :: string
  TotalAttempts :: int
  TotalDuration :: int
  Outcome_Status :: string
  Outcome_FailureReason :: string

definition ErrResultPredicateRetry :: error where
  "ErrResultPredicateRetry = errors_New ''result predicate triggered retry''"

record RetryError =
  Attempts :: "Attempt list"
  TerminationError :: "error option"

text \<open>
  The \<open>Metrics\<close> interface of the package is modelled by the calls made on the
  reporter, in order.
\<close>

datatype metrics_call =
    Metrics_RecordAttempt Attempt
  | Metrics_RecordOutcome Outcome
  | Metrics_RecordBackoff string int int

text \<open>\<open>metricsReporter\<close>; \<open>global\<close> is what \<open>GetGlobalMetrics()\<close> returns.\<close>

definition metricsReporter :: "('t, 'e, 'm) Policy \<Rightarrow> 'm \<Rightarrow> 'm" where
  "metricsReporter p global = (case metrics p of Some m \<Rightarrow> m | None \<Rightarrow> global)"

type_synonym 'e waiter = "int \<Rightarrow> 'e \<Rightarrow> error option \<times> 'e"

definition contextWaiter :: "('c, 'e) runtime \<Rightarrow> 'c \<Rightarrow> 'e waiter" where
  "contextWaiter R ctx =
     (\<lambda>d e. case select_Done_or_Timer R ctx d e of
               (True, e1) \<Rightarrow> (ctx_Err R ctx e1, e1)
             | (False, e1) \<Rightarrow> (None, e1))"

text \<open>\<open>safeExecute\<close> of package retry: no recovery, a panic of \<open>fn\<close> propagates.\<close>

definition safeExecute :: "('c, 'e) runtime \<Rightarrow> 'c \<Rightarrow> ('c, 'e, 't) userfn \<Rightarrow> 't \<Rightarrow> 'e
    \<Rightarrow> (string + ('t \<times> error option)) \<times> 'e" where
  "safeExecute R ctx fn zero e =
     (if ctx_Err R ctx e \<noteq> None then (Inr (zero, ctx_Err R ctx e), e)
      else fn ctx e)"

definition classifyAttemptFailure :: "error option \<Rightarrow> string" where
  "classifyAttemptFailure err =
     (if err = None then ''''
      else if errors_Is err (Some context_DeadlineExceeded) then AttemptFailureReasonTimeout
      else if errors_Is err (Some context_Canceled) then AttemptFailureReasonCanceled
      else AttemptFailureReasonError)"

definition classifyContextError :: "error option \<Rightarrow> string" where
  "classifyContextError err =
     (if err = None then ''''
      else if errors_Is err (Some context_DeadlineExceeded) then OutcomeFailureReasonTimeout
      else OutcomeFailureReasonCanceled)"

record 't attemptOutcome =
  result :: 't
  attempt :: Attempt
  success :: bool
  retryable :: bool

text \<open>
  \<open>executeAttempt\<close>. \<open>zero\<close> is the zero value of the result type. The deferred
  \<open>attemptCancel()\<close> runs on every exit, also when \<open>fn\<close> panics.
\<close>

definition executeAttempt :: "('c, 'e) runtime \<Rightarrow> 'c \<Rightarrow> ('t, 'e, 'm) Policy \<Rightarrow> int
    \<Rightarrow> ('c, 'e, 't) userfn \<Rightarrow> 't \<Rightarrow> 'e \<Rightarrow> (string + 't attemptOutcome) \<times> 'e" where
  "executeAttempt R ctx p attemptNum fn zero e =
     (let attemptStart = time_Now R e;
          attempt0 = \<lparr>PolicyName = name p, Number = attemptNum, Timestamp = attemptStart,
                      Duration = 0, Status = '''', FailureReason = '''', Error_of = None,
                      Retryable = False\<rparr>;
          attemptCtx = (if attemptTimeout p > 0
                        then context_WithTimeout R ctx (attemptTimeout p) e
                        else context_WithCancel R ctx e)
      in case safeExecute R attemptCtx fn zero e of
           (Inl r, e1) \<Rightarrow> (Inl r, cancel R attemptCtx e1)
         | (Inr (attemptResult, attemptErr), e1) \<Rightarrow>
             (let attempt1 = attempt0\<lparr>Duration := time_Now R e1 - attemptStart\<rparr>;
                  shouldRetryResult =
                    (attemptErr = None \<and>
                     (case retryOnResultPredicate p of
                        None \<Rightarrow> False
                      | Some predicate \<Rightarrow> predicate attemptResult))
              in if attemptErr = None \<and> \<not> shouldRetryResult
                 then (Inr \<lparr>result = attemptResult,
                             attempt = attempt1\<lparr>Status := AttemptStatusSuccess\<rparr>,
                             success = True, retryable = False\<rparr>,
                       cancel R attemptCtx e1)
                 else
                   (let attempt2 = attempt1\<lparr>Status := AttemptStatusError\<rparr>;
                        attempt3 =
                          (if shouldRetryResult
                           then attempt2\<lparr>Error_of := Some ErrResultPredicateRetry,
                                         FailureReason := AttemptFailureReasonResult,
                                         Retryable := True\<rparr>
                           else attempt2\<lparr>Error_of := attemptErr,
                                         FailureReason := classifyAttemptFailure attemptErr,
                                         Retryable := ShouldRetryError p attemptErr\<rparr>)
                    in (Inr \<lparr>result = zero, attempt = attempt3, success = False,
                               retryable = Retryable attempt3\<rparr>,
                        cancel R attemptCtx e1))))"

text \<open>
  The state of the loop of \<open>execute\<close>: its local variables, the calls made on the
  reporter so far, and the outside state.
\<close>

record 'e loop_state =
  attemptCount :: int
  retryErr :: RetryError
  outcome :: Outcome
  calls :: "metrics_call list"
  world :: 'e

text \<open>
  What \<open>execute\<close> hands back: the returned pair (the error is nil or the
  \<open>*RetryError\<close>), or the panic that leaves it.
\<close>

datatype 't returned = Returned 't "RetryError option" | Panicked string

text \<open>
  One pass through the body of the \<open>for\<close> loop: \<open>Inl\<close> when the pass leaves the
  loop (by \<open>return\<close>, \<open>break\<close> or a panic), \<open>Inr\<close> when it reaches the end of the
  body. A nil \<open>backoff\<close> makes \<open>p.backoff.Next\<close> panic.
\<close>

definition iteration :: "('c, 'e) runtime \<Rightarrow> 'c \<Rightarrow> ('t, 'e, 'm) Policy \<Rightarrow> 'e waiter
    \<Rightarrow> ('c, 'e, 't) userfn \<Rightarrow> 't \<Rightarrow> 'e loop_state
    \<Rightarrow> ('t returned \<times> 'e loop_state) + 'e loop_state" where
  "iteration R ctx p wait fn zero st =
     (case executeAttempt R ctx p (attemptCount st) fn zero (world st) of
        (Inl r, e1) \<Rightarrow> Inl (Panicked r, st\<lparr>world := e1\<rparr>)
      | (Inr ao, e1) \<Rightarrow>
          (let st1 = st\<lparr>world := e1, calls := calls st @ [Metrics_RecordAttempt (attempt ao)]\<rparr>
           in if success ao
              then Inl (Returned (result ao) None,
                        st1\<lparr>outcome := (outcome st1)\<lparr>Outcome_Status := OutcomeStatusSuccess\<rparr>\<rparr>)
              else
                (let st2 = st1\<lparr>retryErr :=
                             (retryErr st1)\<lparr>Attempts := Attempts (retryErr st1) @ [attempt ao]\<rparr>\<rparr>
                 in if \<not> retryable ao
                    then Inl (Returned zero (Some (retryErr st2)),
                              st2\<lparr>outcome := (outcome st2)\<lparr>Outcome_FailureReason :=
                                    OutcomeFailureReasonNonRetryable\<rparr>\<rparr>)
                    else if attemptCount st2 \<ge> maxAttempts p
                    then Inl (Returned zero (Some (retryErr st2)),
                              st2\<lparr>outcome := (outcome st2)\<lparr>Outcome_FailureReason :=
                                    OutcomeFailureReasonExhausted\<rparr>\<rparr>)
                    else
                      (case backoff p of
                         None \<Rightarrow> Inl (Panicked ''nil pointer dereference'', st2)
                       | Some b \<Rightarrow>
                           (case b (word_of_int (attemptCount st2)) (world st2) of
                              (backoffDuration, e2) \<Rightarrow>
                                (case wait backoffDuration e2 of
                                   (Some waitErr, e3) \<Rightarrow>
                                     (let st3 = st2\<lparr>world := e3,
                                             outcome := (outcome st2)\<lparr>Outcome_FailureReason :=
                                               classifyContextError (Some waitErr)\<rparr>,
                                             retryErr := (retryErr st2)\<lparr>TerminationError :=
                                               Some waitErr\<rparr>\<rparr>
                                      in Inl (Returned zero (Some (retryErr st3)), st3))
                                 | (None, e3) \<Rightarrow>
                                     Inr (st2\<lparr>world := e3,
                                            attemptCount := attemptCount st2 + 1,
                                            calls := calls st2 @
                                              [Metrics_RecordBackoff (name p) (attemptCount st2 + 1)
                                                 backoffDuration]\<rparr>)))))))"

function retry_loop :: "('c, 'e) runtime \<Rightarrow> 'c \<Rightarrow> ('t, 'e, 'm) Policy \<Rightarrow> 'e waiter
    \<Rightarrow> ('c, 'e, 't) userfn \<Rightarrow> 't \<Rightarrow> 'e loop_state \<Rightarrow> 't returned \<times> 'e loop_state" where
  "retry_loop R ctx p wait fn zero st =
     (case iteration R ctx p wait fn zero st of
        Inl done \<Rightarrow> done
      | Inr st1 \<Rightarrow> retry_loop R ctx p wait fn zero st1)"
  by pat_completeness auto

lemma iteration_continues:
  assumes "iteration R ctx p wait fn zero st = Inr st1"
  shows "attemptCount st1 = attemptCount st + 1 \<and> attemptCount st < maxAttempts p"
  using assms
  by (auto simp: iteration_def Let_def split: prod.splits sum.splits if_splits option.splits)

termination retry_loop
  by (relation "measure (\<lambda>(R, ctx, p, wait, fn, zero, st). nat (maxAttempts p - attemptCount st))")
     (auto dest!: iteration_continues)

text \<open>
  The deferred function of \<open>execute\<close>: it runs when the loop is left, on every path,
  completes the outcome and reports it. The result is what \<open>execute\<close> hands back, the
  reporter the calls went to, the calls, and the outside state.
\<close>

record ('t, 'e, 'm) execution =
  handed_back :: "'t returned"
  reporter :: 'm
  reported :: "metrics_call list"
  final_world :: 'e

definition run_deferred :: "('c, 'e) runtime \<Rightarrow> 'm \<Rightarrow> int \<Rightarrow> 't returned \<times> 'e loop_state
    \<Rightarrow> ('t, 'e, 'm) execution" where
  "run_deferred R metricsRep overallStart left =
     (case left of
        (ret, st) \<Rightarrow>
          \<lparr>handed_back = ret,
           reporter = metricsRep,
           reported = calls st @
             [Metrics_RecordOutcome
                ((outcome st)\<lparr>TotalAttempts := attemptCount st,
                              TotalDuration := time_Now R (world st) - overallStart\<rparr>)],
           final_world = world st\<rparr>)"

text \<open>The local variables of \<open>execute\<close> when the loop is entered.\<close>

definition initial_state :: "('t, 'e, 'm) Policy \<Rightarrow> 'e \<Rightarrow> 'e loop_state" where
  "initial_state p e =
     \<lparr>attemptCount = 1,
      retryErr = \<lparr>Attempts = [], TerminationError = None\<rparr>,
      outcome = \<lparr>Outcome_PolicyName = name p, TotalAttempts = 0, TotalDuration = 0,
                 Outcome_Status = OutcomeStatusError, Outcome_FailureReason = ''''\<rparr>,
      calls = [], world = e\<rparr>"

definition execute :: "('c, 'e) runtime \<Rightarrow> 'm \<Rightarrow> 'c \<Rightarrow> ('t, 'e, 'm) Policy \<Rightarrow> 'e waiter
    \<Rightarrow> ('c, 'e, 't) userfn \<Rightarrow> 't \<Rightarrow> 'e \<Rightarrow> ('t, 'e, 'm) execution" where
  "execute R global ctx p wait fn zero e =
     (let metricsRep = metricsReporter p global;
          overallStart = time_Now R e
      in run_deferred R metricsRep overallStart
           (retry_loop R ctx p wait fn zero (initial_state p e)))"

definition retry_Execute :: "('c, 'e) runtime \<Rightarrow> 'm \<Rightarrow> 'c \<Rightarrow> ('t, 'e, 'm) Policy
    \<Rightarrow> ('c, 'e, 't) userfn \<Rightarrow> 't \<Rightarrow> 'e \<Rightarrow> ('t, 'e, 'm) execution" where
  "retry_Execute R global ctx p fn zero e = execute R global ctx p (contextWaiter R ctx) fn zero e"

section \<open>Notions used to state the properties\<close>

text \<open>The unwrap chain of an error: the error, what it unwraps to, and so on.\<close>

fun unwrap_chain :: "error \<Rightarrow> error list" where
  "unwrap_chain (Error i u) = Error i u # (case u of None \<Rightarrow> [] | Some e \<Rightarrow> unwrap_chain e)"

text \<open>An error matches a list when some non-nil entry of the list is on its unwrap chain.\<close>

definition matches :: "error \<Rightarrow> error option list \<Rightarrow> bool" where
  "matches e targets = (\<exists>t. Some t \<in> set targets \<and> t \<in> set (unwrap_chain e))"

text \<open>An option that leaves the allow list (the deny list) of every policy as it is.\<close>

definition keeps_retryErrors :: "('t, 'e, 'm) Option \<Rightarrow> bool" where
  "keeps_retryErrors opt = (\<forall>p. retryErrors (opt p) = retryErrors p)"

definition keeps_ignoreErrors :: "('t, 'e, 'm) Option \<Rightarrow> bool" where
  "keeps_ignoreErrors opt = (\<forall>p. ignoreErrors (opt p) = ignoreErrors p)"

text \<open>What a slot of the ring counts as.\<close>

definition is_success :: "CallOutcome option \<Rightarrow> bool" where
  "is_success s = (s = Some OutcomeSuccess \<or> s = Some OutcomeSlowSuccess)"

definition is_failure :: "CallOutcome option \<Rightarrow> bool" where
  "is_failure s = (s = Some OutcomeFailure \<or> s = Some OutcomeSlowFailure)"

definition is_slow :: "CallOutcome option \<Rightarrow> bool" where
  "is_slow s = (s = Some OutcomeSlowSuccess \<or> s = Some OutcomeSlowFailure)"

text \<open>The number of filled slots of a window.\<close>

definition filled :: "CountWindow \<Rightarrow> nat" where
  "filled w = (case ring w of None \<Rightarrow> 0 | Some r \<Rightarrow> length (filter (\<lambda>s. s \<noteq> None) (slots r)))"

definition rates_in_range :: "int \<times> real \<times> real \<times> real \<Rightarrow> bool" where
  "rates_in_range rates =
     (case rates of
        (totalCalls, successRate, failureRate, slowCallRate) \<Rightarrow>
          0 \<le> successRate \<and> successRate \<le> 100 \<and> 0 \<le> failureRate \<and> failureRate \<le> 100 \<and>
          0 \<le> slowCallRate \<and> slowCallRate \<le> 100)"

text \<open>The invariants of a window of capacity \<open>c\<close>, with the counters read as signed.\<close>

definition window_invariants :: "int \<Rightarrow> CountWindow \<Rightarrow> bool" where
  "window_invariants c w =
     (sint (successCount w) + sint (failureCount w) = CountWindow_Size w \<and>
      sint (slowCallCount w) \<le> CountWindow_Size w \<and>
      CountWindow_Size w = int (filled w) \<and>
      CountWindow_Size w \<le> c \<and>
      rates_in_range (CountWindow_CallRates w) \<and>
      (if filled w = 0 then CountWindow_CallRates w = (0, 0, 0, 0) else True))"

definition counters_zero :: "CountWindow \<Rightarrow> bool" where
  "counters_zero w =
     (successCount w = 0 \<and> failureCount w = 0 \<and> slowCallCount w = 0 \<and> CountWindow_Size w = 0)"

text \<open>
  The counters of a window over a ring of \<open>c\<close> slots agree (modulo \<open>2 ^ 32\<close>) with
  what the slots hold.
\<close>

definition counted :: "nat \<Rightarrow> CountWindow \<Rightarrow> bool" where
  "counted c w =
     (case ring w of
        None \<Rightarrow> False
      | Some r \<Rightarrow>
          length (slots r) = c \<and> cur r < c \<and>
          successCount w = of_nat (length (filter is_success (slots r))) \<and>
          failureCount w = of_nat (length (filter is_failure (slots r))) \<and>
          slowCallCount w = of_nat (length (filter is_slow (slots r))))"

text \<open>
  The window over a ring of \<open>c\<close> slots after \<open>k \<le> c\<close> plain successes have been
  recorded into the new window.
\<close>

definition successes_only :: "nat \<Rightarrow> nat \<Rightarrow> CountWindow" where
  "successes_only c k =
     \<lparr>ring = Some \<lparr>slots = replicate k (Some OutcomeSuccess) @ replicate (c - k) None,
                   cur = k mod c\<rparr>,
      successCount = of_nat k, failureCount = 0, slowCallCount = 0\<rparr>"

text \<open>The failure rate and the slow-call rate that a window reports.\<close>

definition failure_rate :: "'w Window \<Rightarrow> real" where
  "failure_rate v = (case window_CallRates v of (totalCalls, successRate, failureRate, slowRate) \<Rightarrow> failureRate)"

definition slow_rate :: "'w Window \<Rightarrow> real" where
  "slow_rate v = (case window_CallRates v of (totalCalls, successRate, failureRate, slowRate) \<Rightarrow> slowRate)"

text \<open>The outcome that \<open>after\<close> records for a call.\<close>

definition recorded_outcome :: "('w, 't) Config \<Rightarrow> 't \<Rightarrow> error option \<Rightarrow> int \<Rightarrow> CallOutcome" where
  "recorded_outcome cfg res err duration =
     classify_outcome (shouldFailCall cfg res err) (duration \<ge> SlowCallDurationThreshold cfg)"

text \<open>The context an attempt runs under.\<close>

definition attemptCtx_of :: "('c, 'e) runtime \<Rightarrow> 'c \<Rightarrow> ('t, 'e, 'm) Policy \<Rightarrow> 'e \<Rightarrow> 'c" where
  "attemptCtx_of R ctx p e =
     (if attemptTimeout p > 0 then context_WithTimeout R ctx (attemptTimeout p) e
      else context_WithCancel R ctx e)"





text \<open>The state in which a pass through the loop body ends.\<close>

definition state_after :: "('t returned \<times> 'e loop_state) + 'e loop_state \<Rightarrow> 'e loop_state" where
  "state_after x = (case x of Inl (ret, st) \<Rightarrow> st | Inr st \<Rightarrow> st)"

text \<open>Whether the result predicate of a policy selects a result for retry.\<close>

definition selects_retry :: "('t, 'e, 'm) Policy \<Rightarrow> 't \<Rightarrow> bool" where
  "selects_retry p v = (case retryOnResultPredicate p of None \<Rightarrow> False | Some predicate \<Rightarrow> predicate v)"

text \<open>
  A concrete scenario, used to instantiate the theorems. The outside state is the
  reading of the clock; the parent context has its deadline at instant 10, and a wait
  that would pass the deadline is interrupted at instant 10. The user functions take 4
  units of time; \<open>failing_fn\<close> returns an error, \<open>value_fn v\<close> returns \<open>v\<close>. The policy
  allows two attempts, waits 3 between them, and retries negative results.
\<close>

definition demo_runtime :: "(unit, int) runtime" where
  "demo_runtime =
     \<lparr>time_Now = (\<lambda>e. e),
      ctx_Err = (\<lambda>c e. if e \<ge> 10 then Some context_DeadlineExceeded else None),
      context_WithTimeout = (\<lambda>c d e. c),
      context_WithCancel = (\<lambda>c e. c),
      cancel = (\<lambda>c e. e),
      select_Done_or_Timer = (\<lambda>c d e. if e + d \<ge> 10 then (True, 10) else (False, e + d))\<rparr>"

definition failing_fn :: "(unit, int, int) userfn" where
  "failing_fn = (\<lambda>c e. (Inr (0, Some (errors_New ''boom'')), e + 4))"

definition value_fn :: "int \<Rightarrow> (unit, int, int) userfn" where
  "value_fn v = (\<lambda>c e. (Inr (v, None), e + 4))"

definition demo_policy :: "(int, int, unit) Policy" where
  "demo_policy =
     \<lparr>name = ''demo'', metrics = None, maxAttempts = 2, attemptTimeout = 0,
      backoff = Some (\<lambda>attempt e. (Fixed_Next (NewFixed 3) attempt, e)),
      retryOnResultPredicate = Some (\<lambda>v. v < 0), retryOnErrorPredicate = None,
      retryErrors = [], ignoreErrors = []\<rparr>"



text \<open>The power that \<open>Next\<close> computes for an attempt.\<close>

definition pow_at :: "float_ops \<Rightarrow> Exponential \<Rightarrow> 64 word \<Rightarrow> float64" where
  "pow_at ops e n = math_Pow ops (multiplier e) (float64_of_uint ops (n - 1))"



chapter \<open>Properties\<close>

section \<open>The retry policy\<close>

lemma is_chain_unwrap_chain: "is_chain e t = (t \<in> set (unwrap_chain e))"
  by (induction e t rule: is_chain.induct) (auto split: option.splits)

lemma list_ex_errors_Is:
  "list_ex (\<lambda>t. errors_Is (Some e) t) targets = matches e targets"
  by (auto simp: list_ex_iff matches_def errors_Is_def is_chain_unwrap_chain split: option.splits)

text \<open>
  C5. \<open>ShouldRetryError\<close> is false for the nil error; for a non-nil error it is the
  result of \<open>retryOnErrorPredicate\<close> when that is set, whatever the lists hold;
  otherwise it is false when the error matches an entry of \<open>ignoreErrors\<close> through its
  unwrap chain; otherwise, when \<open>retryErrors\<close> is not empty, it is true exactly when
  the error matches an entry of \<open>retryErrors\<close>; and it is true when \<open>retryErrors\<close> is
  empty.
\<close>

theorem C5_ShouldRetryError:
  "ShouldRetryError p err =
     (case err of
        None \<Rightarrow> False
      | Some e \<Rightarrow>
          (case retryOnErrorPredicate p of
             Some predicate \<Rightarrow> predicate e
           | None \<Rightarrow>
               if matches e (ignoreErrors p) then False
               else if retryErrors p \<noteq> [] then matches e (retryErrors p)
               else True))"
  by (simp add: ShouldRetryError_def list_ex_errors_Is split: option.splits)

theorem C5_ShouldRetryError_witness:
  "\<not> ShouldRetryError
       \<lparr>name = ''p'', metrics = None :: unit option, maxAttempts = 3, attemptTimeout = 0,
        backoff = None :: unit Backoff option,
        retryOnResultPredicate = None :: (unit \<Rightarrow> bool) option,
        retryOnErrorPredicate = None,
        retryErrors = [Some (errors_New ''a'')],
        ignoreErrors = [None, Some (errors_New ''b'')]\<rparr>
       (Some (wrap_error ''w'' (errors_New ''c'')))
   \<and> ShouldRetryError
       \<lparr>name = ''p'', metrics = None :: unit option, maxAttempts = 3, attemptTimeout = 0,
        backoff = None :: unit Backoff option,
        retryOnResultPredicate = None :: (unit \<Rightarrow> bool) option,
        retryOnErrorPredicate = Some (\<lambda>e. True),
        retryErrors = [Some (errors_New ''a'')],
        ignoreErrors = [Some (errors_New ''c'')]\<rparr>
       (Some (wrap_error ''w'' (errors_New ''c'')))"
  by (simp add: C5_ShouldRetryError matches_def wrap_error_def errors_New_def)

lemma fold_keeps_retryErrors:
  "list_all keeps_retryErrors rest \<Longrightarrow>
   retryErrors (fold (\<lambda>option p. option p) rest p) = retryErrors p"
  by (induction rest arbitrary: p) (auto simp: keeps_retryErrors_def)

lemma fold_keeps_ignoreErrors:
  "list_all keeps_ignoreErrors rest \<Longrightarrow>
   ignoreErrors (fold (\<lambda>option p. option p) rest p) = ignoreErrors p"
  by (induction rest arbitrary: p) (auto simp: keeps_ignoreErrors_def)

lemma NewPolicy_Inr:
  "NewPolicy nm opts = Inr p \<Longrightarrow>
   p = fold (\<lambda>option p. option p) opts
        \<lparr>name = nm, metrics = None, maxAttempts = 3, attemptTimeout = 0,
         backoff = Some (Linear_Backoff (NewLinear (100 * time_Millisecond))),
         retryOnResultPredicate = None, retryOnErrorPredicate = None,
         retryErrors = [], ignoreErrors = []\<rparr>"
  by (auto simp: NewPolicy_def Let_def split: option.splits)

text \<open>Every other option of the package leaves the two lists as they are.\<close>

lemma other_options_keep_retryErrors:
  "keeps_retryErrors (WithMetrics m)" "keeps_retryErrors (WithMaxAttempts n)"
  "keeps_retryErrors (WithAttemptTimeout d)" "keeps_retryErrors (WithBackoff b)"
  "keeps_retryErrors (WithRetryOnResultPredicate f)"
  "keeps_retryErrors (WithRetryOnErrorPredicate g)"
  "keeps_retryErrors (WithIgnoreErrors es)"
  by (simp_all add: keeps_retryErrors_def WithMetrics_def WithMaxAttempts_def
      WithAttemptTimeout_def WithBackoff_def WithRetryOnResultPredicate_def
      WithRetryOnErrorPredicate_def WithIgnoreErrors_def)

lemma other_options_keep_ignoreErrors:
  "keeps_ignoreErrors (WithMetrics m)" "keeps_ignoreErrors (WithMaxAttempts n)"
  "keeps_ignoreErrors (WithAttemptTimeout d)" "keeps_ignoreErrors (WithBackoff b)"
  "keeps_ignoreErrors (WithRetryOnResultPredicate f)"
  "keeps_ignoreErrors (WithRetryOnErrorPredicate g)"
  "keeps_ignoreErrors (WithRetryErrors es)"
  by (simp_all add: keeps_ignoreErrors_def WithMetrics_def WithMaxAttempts_def
      WithAttemptTimeout_def WithBackoff_def WithRetryOnResultPredicate_def
      WithRetryOnErrorPredicate_def WithRetryErrors_def)

text \<open>
  C10. When \<open>NewPolicy\<close> runs its options, an application of \<open>WithRetryErrors\<close> that
  no later option overrides leaves \<open>retryErrors\<close> equal to its own arguments, whatever
  earlier options (earlier applications of \<open>WithRetryErrors\<close> among them) did: the list
  is replaced, not merged. The same holds for \<open>WithIgnoreErrors\<close> and \<open>ignoreErrors\<close>.
\<close>

theorem C10_error_lists_replaced:
  "(list_all keeps_retryErrors rest \<longrightarrow>
      NewPolicy nm (earlier @ WithRetryErrors es # rest) = Inr p \<longrightarrow> retryErrors p = es) \<and>
   (list_all keeps_ignoreErrors rest \<longrightarrow>
      NewPolicy nm (earlier @ WithIgnoreErrors es # rest) = Inr p \<longrightarrow> ignoreErrors p = es)"
  by (auto dest!: NewPolicy_Inr simp: fold_keeps_retryErrors fold_keeps_ignoreErrors
        WithRetryErrors_def WithIgnoreErrors_def)

theorem C10_error_lists_replaced_witness:
  "(\<exists>p :: (unit, unit, unit) Policy.
      NewPolicy ''test.Policy''
        [WithRetryErrors [Some (errors_New ''error1'')],
         WithRetryErrors [Some (errors_New ''error2'')], WithMaxAttempts 5] = Inr p \<and>
      retryErrors p = [Some (errors_New ''error2'')]) \<and>
   (\<exists>p :: (unit, unit, unit) Policy.
      NewPolicy ''test.Policy''
        [WithIgnoreErrors [Some (errors_New ''error1'')],
         WithIgnoreErrors [Some (errors_New ''error2'')]] = Inr p \<and>
      ignoreErrors p = [Some (errors_New ''error2'')])"
proof -
  obtain p :: "(unit, unit, unit) Policy" where p:
    "NewPolicy ''test.Policy''
        [WithRetryErrors [Some (errors_New ''error1'')],
         WithRetryErrors [Some (errors_New ''error2'')], WithMaxAttempts 5] = Inr p"
    by (simp add: NewPolicy_def Let_def Validate_def WithRetryErrors_def WithMaxAttempts_def)
  obtain q :: "(unit, unit, unit) Policy" where q:
    "NewPolicy ''test.Policy''
        [WithIgnoreErrors [Some (errors_New ''error1'')],
         WithIgnoreErrors [Some (errors_New ''error2'')]] = Inr q"
    by (simp add: NewPolicy_def Let_def Validate_def WithIgnoreErrors_def)
  have "retryErrors p = [Some (errors_New ''error2'')]"
    using C10_error_lists_replaced
      [of "[WithMaxAttempts 5]" "''test.Policy''" "[WithRetryErrors [Some (errors_New ''error1'')]]"
          "[Some (errors_New ''error2'')]" p]
      p
    by (simp add: other_options_keep_retryErrors)
  moreover have "ignoreErrors q = [Some (errors_New ''error2'')]"
    using C10_error_lists_replaced
      [of "[]" "''test.Policy''" "[WithIgnoreErrors [Some (errors_New ''error1'')]]"
          "[Some (errors_New ''error2'')]" q]
      q
    by simp
  ultimately show ?thesis using p q by blast
qed

section \<open>The exponential backoff\<close>
























text \<open>
  Why the maximum has to be represented exactly: the greatest \<open>int64\<close> converts to
  \<open>2 ^ 63\<close>, so an interval clamped to it is outside the range of \<open>int64\<close>, and
  \<open>Next\<close> returns what the implementation makes of that conversion (the least
  \<open>int64\<close> on amd64).
\<close>

lemma Next_clamp_overflows:
  assumes "jitter e = Fin 0"
    and "float64_of_int ops (maxInterval e) = Fin (2 ^ 63)"
    and "fgt (fmul ops (float64_of_int ops (initialInterval e)) (pow_at ops e n)) (Fin (2 ^ 63))"
  shows "Exponential_Next ops e rnd n = sint (int64_of_unrepresentable ops (Fin (2 ^ 63)))"
  using assms
  by (simp add: Exponential_Next_def Let_def pow_at_def fgt_def Duration_of_float_def
      truncate_real_def)

section \<open>The count window\<close>

lemma sint_of_nat_small:
  assumes "n < 2 ^ 31"
  shows "sint (of_nat n :: 32 word) = int n"
proof -
  have "sint (word_of_int (int n) :: 32 word) = signed_take_bit (LENGTH(32) - 1) (int n)"
    by (rule sint_sbintrunc')
  also have "\<dots> = int n"
    using assms by (intro signed_take_bit_int_eq_self) auto
  finally show ?thesis by simp
qed

lemma count_update:
  assumes "i < length xs"
  shows "length (filter P (xs[i := y])) + (if P (xs ! i) then 1 else 0)
     = length (filter P xs) + (if P y then 1 else 0)"
proof -
  have a: "xs[i := y] = take i xs @ y # drop (Suc i) xs"
    using assms by (rule upd_conv_take_nth_drop)
  have b: "filter P xs = filter P (take i xs @ xs ! i # drop (Suc i) xs)"
    using assms by (simp add: id_take_nth_drop[symmetric])
  show ?thesis unfolding a b by simp
qed

lemma word_count_update:
  assumes "i < length xs"
  shows "(of_nat (length (filter P (xs[i := y]))) :: 32 word)
     = of_nat (length (filter P xs)) - (if P (xs ! i) then 1 else 0) + (if P y then 1 else 0)"
proof -
  define A :: "32 word" where "A = of_nat (length (filter P (xs[i := y])))"
  define B :: "32 word" where "B = of_nat (length (filter P xs))"
  define d :: "32 word" where "d = (if P (xs ! i) then 1 else 0)"
  define u :: "32 word" where "u = (if P y then 1 else 0)"
  have "(of_nat (length (filter P (xs[i := y])) + (if P (xs ! i) then 1 else 0)) :: 32 word)
      = of_nat (length (filter P xs) + (if P y then 1 else 0))"
    using count_update [OF assms, of P y] by simp
  then have "A + d = B + u"
    by (simp add: A_def B_def d_def u_def split: if_splits)
  then have "A = B - d + u"
    by (simp add: algebra_simps)
  then show ?thesis by (simp add: A_def B_def d_def u_def)
qed

lemma counted_New: "0 < c \<Longrightarrow> counted (nat c) (NewCountWindow c)"
  by (simp add: counted_def NewCountWindow_def ring_New_def is_success_def is_failure_def is_slow_def)

lemma counted_Record:
  assumes "counted c w"
  shows "\<exists>w1. CountWindow_RecordOutcome oc w = Some w1 \<and> counted c w1"
proof -
  obtain r where r: "ring w = Some r" "length (slots r) = c" "cur r < c"
    "successCount w = of_nat (length (filter is_success (slots r)))"
    "failureCount w = of_nat (length (filter is_failure (slots r)))"
    "slowCallCount w = of_nat (length (filter is_slow (slots r)))"
    using assms by (auto simp: counted_def split: option.splits)
  have i: "cur r < length (slots r)" using r by simp
  show ?thesis
  proof (cases "slots r ! cur r")
    case None
    then show ?thesis
      using r
      by (cases oc)
         (simp_all add: CountWindow_RecordOutcome_def counted_def Let_def ring_Next_def
            incrementOutcome_def word_count_update [OF i]
            is_success_def is_failure_def is_slow_def)
  next
    case (Some old)
    then show ?thesis
      using r
      by (cases oc; cases old)
         (simp_all add: CountWindow_RecordOutcome_def counted_def Let_def ring_Next_def
            incrementOutcome_def decrementOutcome_def word_count_update [OF i]
            is_success_def is_failure_def is_slow_def)
  qed
qed

lemma counted_Reset:
  assumes "counted c w"
  shows "counted c (CountWindow_Reset w) \<and> counters_zero (CountWindow_Reset w)"
  using assms
  by (auto simp: counted_def CountWindow_Reset_def ring_New_def ring_Len_def counters_zero_def
      CountWindow_Size_def is_success_def is_failure_def is_slow_def split: option.splits)

lemma counted_ops:
  assumes "counted c w"
  shows "\<exists>w1. apply_ops ops w = Some w1 \<and> counted c w1"
  using assms
proof (induction ops arbitrary: w)
  case Nil
  then show ?case by simp
next
  case (Cons x xs)
  show ?case
  proof (cases x)
    case (Record oc)
    obtain w1 where "CountWindow_RecordOutcome oc w = Some w1" "counted c w1"
      using counted_Record [OF Cons.prems] by blast
    then show ?thesis using Cons.IH [of w1] Record by simp
  next
    case ResetOp
    then show ?thesis using Cons.IH [of "CountWindow_Reset w"] counted_Reset [OF Cons.prems] by simp
  qed
qed

lemma apply_ops_append:
  "apply_ops (xs @ ys) w = (case apply_ops xs w of None \<Rightarrow> None | Some w1 \<Rightarrow> apply_ops ys w1)"
  by (induction xs arbitrary: w) (auto split: option.splits)

lemma success_failure_filled:
  "length (filter is_success xs) + length (filter is_failure xs) = length (filter (\<lambda>s. s \<noteq> None) xs)"
proof (induction xs)
  case Nil
  then show ?case by simp
next
  case (Cons x xs)
  then show ?case
  proof (cases x)
    case None
    then show ?thesis using Cons by (simp add: is_success_def is_failure_def)
  next
    case (Some a)
    then show ?thesis using Cons by (cases a) (simp_all add: is_success_def is_failure_def)
  qed
qed

lemma slow_le_filled:
  "length (filter is_slow xs) \<le> length (filter (\<lambda>s. s \<noteq> None) xs)"
proof (induction xs)
  case Nil
  then show ?case by simp
next
  case (Cons x xs)
  then show ?case by (cases x) (auto simp: is_slow_def)
qed

lemma rate_bounds:
  fixes k n :: nat
  assumes "k \<le> n" "0 < n"
  shows "0 \<le> real_of_int (int k) / real_of_int (int n) * 100 \<and>
         real_of_int (int k) / real_of_int (int n) * 100 \<le> 100"
  using assms by (simp add: field_simps)

lemma counted_invariants:
  assumes "counted c w" "c < 2 ^ 31"
  shows "window_invariants (int c) w"
proof -
  obtain r where r: "ring w = Some r" "length (slots r) = c" "cur r < c"
    "successCount w = of_nat (length (filter is_success (slots r)))"
    "failureCount w = of_nat (length (filter is_failure (slots r)))"
    "slowCallCount w = of_nat (length (filter is_slow (slots r)))"
    using assms by (auto simp: counted_def split: option.splits)
  define ns where "ns = length (filter is_success (slots r))"
  define nf where "nf = length (filter is_failure (slots r))"
  define nl where "nl = length (filter is_slow (slots r))"
  define n where "n = length (filter (\<lambda>s. s \<noteq> None) (slots r))"
  have sum: "ns + nf = n" unfolding ns_def nf_def n_def by (rule success_failure_filled)
  have nl: "nl \<le> n" unfolding nl_def n_def by (rule slow_le_filled)
  have "n \<le> length (slots r)" unfolding n_def by (rule length_filter_le)
  then have n: "n \<le> c" using r by simp
  then have small: "n < 2 ^ 31" "ns < 2 ^ 31" "nf < 2 ^ 31" "nl < 2 ^ 31"
    using assms(2) sum nl by simp_all
  have fl: "filled w = n" using r by (simp add: filled_def n_def)
  have s: "sint (successCount w) = int ns" using r small by (simp add: ns_def sint_of_nat_small)
  have f: "sint (failureCount w) = int nf" using r small by (simp add: nf_def sint_of_nat_small)
  have l: "sint (slowCallCount w) = int nl" using r small by (simp add: nl_def sint_of_nat_small)
  have "successCount w + failureCount w = of_nat n"
    using r sum by (simp add: ns_def nf_def flip: of_nat_add)
  then have sz: "CountWindow_Size w = int n"
    using small by (simp add: CountWindow_Size_def sint_of_nat_small)
  have rates: "rates_in_range (CountWindow_CallRates w)"
  proof (cases "n = 0")
    case True
    then show ?thesis by (simp add: CountWindow_CallRates_def sz rates_in_range_def)
  next
    case False
    then have pos: "0 < n" by simp
    have "ns \<le> n" "nf \<le> n" using sum by simp_all
    then show ?thesis
      using rate_bounds [of ns n] rate_bounds [of nf n] rate_bounds [of nl n] nl pos False
      by (simp add: CountWindow_CallRates_def sz rates_in_range_def Let_def s f l)
  qed
  have empty: "n = 0 \<Longrightarrow> CountWindow_CallRates w = (0, 0, 0, 0)"
    by (simp add: CountWindow_CallRates_def sz)
  show ?thesis
    unfolding window_invariants_def
    using s f l sz sum nl n rates empty fl by auto
qed

text \<open>
  C8, amended. For a \<open>CountWindow\<close> of capacity \<open>c\<close> with \<open>0 < c < 2 ^ 31\<close> and every
  sequence of \<open>RecordOutcome\<close> and \<open>Reset\<close> operations on the new window, no operation
  panics and the window reached satisfies the invariants: \<open>successCount + failureCount =
  Size()\<close>, \<open>slowCallCount \<le> Size()\<close>, \<open>Size()\<close> is the number of filled slots and at most
  \<open>c\<close>, the three rates of \<open>CallRates\<close> lie in \<open>[0, 100]\<close>, and all of \<open>CallRates\<close> is
  zero when no slot is filled; when the last operation is \<open>Reset\<close>, the three counters and
  \<open>Size()\<close> are zero. Every prefix of a sequence is a sequence, so this holds after
  every operation.
\<close>

theorem C8_CountWindow_amended:
  assumes "0 < c" and "c < 2 ^ 31"
  shows "\<exists>w. apply_ops ops (NewCountWindow c) = Some w \<and> window_invariants c w \<and>
             (if ops \<noteq> [] \<and> last ops = ResetOp then counters_zero w else True)"
proof -
  have c0: "counted (nat c) (NewCountWindow c)" using assms(1) by (rule counted_New)
  obtain w where w: "apply_ops ops (NewCountWindow c) = Some w" "counted (nat c) w"
    using counted_ops [OF c0] by blast
  have "nat c < 2 ^ 31" using assms by (simp add: nat_less_iff)
  then have "window_invariants (int (nat c)) w" using w(2) by (intro counted_invariants)
  then have inv: "window_invariants c w" using assms(1) by simp
  have "counters_zero w" if "ops \<noteq> []" "last ops = ResetOp"
  proof -
    have ops: "ops = butlast ops @ [ResetOp]" using that by (metis append_butlast_last_id)
    obtain w1 where w1: "apply_ops (butlast ops) (NewCountWindow c) = Some w1" "counted (nat c) w1"
      using counted_ops [OF c0] by blast
    have "apply_ops ops (NewCountWindow c) = Some (CountWindow_Reset w1)"
      by (subst ops) (simp add: apply_ops_append w1)
    then have "w = CountWindow_Reset w1" using w(1) by simp
    then show ?thesis using counted_Reset [OF w1(2)] by simp
  qed
  then show ?thesis using w(1) inv by auto
qed


lemma successes_only_step:
  assumes "k < c"
  shows "CountWindow_RecordOutcome OutcomeSuccess (successes_only c k) = Some (successes_only c (Suc k))"
proof -
  have nth: "(replicate k (Some OutcomeSuccess) @ replicate (c - k) None) ! k = None"
    using assms by (simp add: nth_append)
  have upd: "(replicate k (Some OutcomeSuccess) @ replicate (c - k) None)[k := Some OutcomeSuccess]
      = replicate (Suc k) (Some OutcomeSuccess) @ replicate (c - Suc k) None"
  proof -
    have "replicate (c - k) (None :: CallOutcome option) = None # replicate (c - Suc k) None"
      using assms by (metis Suc_diff_Suc replicate_Suc)
    then show ?thesis by (simp add: list_update_append replicate_append_same)
  qed
  show ?thesis
    using assms nth upd
    by (simp add: CountWindow_RecordOutcome_def successes_only_def Let_def incrementOutcome_def
        ring_Next_def)
qed

lemma successes_only_run:
  "k + n \<le> c \<Longrightarrow>
   apply_ops (replicate n (Record OutcomeSuccess)) (successes_only c k) = Some (successes_only c (k + n))"
proof (induction n arbitrary: k)
  case 0
  then show ?case by simp
next
  case (Suc n)
  then have "k < c" "Suc k + n \<le> c" by simp_all
  then show ?case using Suc.IH [of "Suc k"] by (simp add: successes_only_step)
qed

lemma successes_only_New: "0 < c \<Longrightarrow> NewCountWindow (int c) = successes_only c 0"
  by (simp add: NewCountWindow_def successes_only_def ring_New_def)

lemma full_of_successes:
  "0 < c \<Longrightarrow>
   apply_ops (replicate c (Record OutcomeSuccess)) (NewCountWindow (int c)) = Some (successes_only c c)"
  using successes_only_run [of 0 c c] by (simp add: successes_only_New)

text \<open>
  C8, the counterexample. The counters are \<open>int32\<close>. On a window of capacity \<open>2 ^ 31\<close>,
  recording \<open>2 ^ 31\<close> plain successes fills the ring without overwriting a slot;
  \<open>successCount\<close> wraps to \<open>- 2 ^ 31\<close>, so \<open>Size()\<close> is \<open>- 2 ^ 31\<close> while
  \<open>slowCallCount\<close> is 0: \<open>slowCallCount \<le> Size()\<close> fails, and \<open>Size()\<close> is not the number
  of filled slots.
\<close>

theorem C8_CountWindow_counterexample:
  "map_option CountWindow_Size
     (apply_ops (replicate 2147483648 (Record OutcomeSuccess)) (NewCountWindow 2147483648))
     = Some (- 2147483648) \<and>
   map_option slowCallCount
     (apply_ops (replicate 2147483648 (Record OutcomeSuccess)) (NewCountWindow 2147483648))
     = Some 0 \<and>
   map_option (window_invariants 2147483648)
     (apply_ops (replicate 2147483648 (Record OutcomeSuccess)) (NewCountWindow 2147483648))
     = Some False"
proof -
  have run: "apply_ops (replicate 2147483648 (Record OutcomeSuccess)) (NewCountWindow 2147483648)
      = Some (successes_only 2147483648 2147483648)"
    using full_of_successes [of 2147483648] by simp
  have sz: "CountWindow_Size (successes_only 2147483648 2147483648) = - 2147483648"
    by (simp add: CountWindow_Size_def successes_only_def)
  have sl: "slowCallCount (successes_only 2147483648 2147483648) = 0"
    by (simp add: successes_only_def)
  have "\<not> window_invariants 2147483648 (successes_only 2147483648 2147483648)"
    unfolding window_invariants_def sz sl by simp
  then show ?thesis using run sz sl by simp
qed

theorem C8_CountWindow_amended_witness:
  "\<exists>w. apply_ops [Record OutcomeSlowFailure, Record OutcomeSuccess, Record OutcomeFailure, ResetOp]
          (NewCountWindow 2) = Some w \<and> window_invariants 2 w \<and> counters_zero w"
  using C8_CountWindow_amended
    [of 2 "[Record OutcomeSlowFailure, Record OutcomeSuccess, Record OutcomeFailure, ResetOp]"]
  by simp

section \<open>The circuit breaker\<close>

lemma setStateUnsafe_state: "state (setStateUnsafe now st cb) = st"
  by (simp add: setStateUnsafe_def Let_def)

text \<open>
  C2. For a breaker in the Closed state, when \<open>after\<close> records the outcome of a call
  (the window does not panic, and \<open>w1\<close> is the window with the outcome recorded), the
  breaker is Open afterwards if \<open>w1.Size() \<ge> MinimumNumberOfCalls\<close> and the failure rate
  of \<open>w1\<close> is at least \<open>FailureRateThreshold\<close> or its slow-call rate is at least
  \<open>SlowCallRateThreshold\<close>; otherwise it is still Closed.
\<close>

theorem C2_closed_to_open:
  assumes "state cb = StateClosed"
    and "window_RecordOutcome (recorded_outcome (config cb) res err duration) (window cb) = Some w1"
  shows "\<exists>cb1. after now res err duration cb = Some cb1 \<and>
           state cb1 =
             (if window_Size w1 \<ge> MinimumNumberOfCalls (config cb) \<and>
                 (failure_rate w1 \<ge> FailureRateThreshold (config cb) \<or>
                  slow_rate w1 \<ge> SlowCallRateThreshold (config cb))
              then StateOpen else StateClosed)"
  using assms
  by (auto simp: after_def Let_def recorded_outcome_def evaluateStateTransitionUnsafe_def
      areThresholdsExceededUnsafe_def failure_rate_def slow_rate_def setStateUnsafe_state
      split: prod.splits)

text \<open>
  C3. When \<open>before\<close> returns an error, \<open>Execute\<close> returns the zero result and that
  error, the outside state is the one it started from whatever \<open>fn\<close> is (\<open>fn\<close> was
  not invoked), and the breaker is the one \<open>before\<close> left whatever the window is
  (\<open>after\<close> was not called); the error is \<open>ErrOpenState\<close> or \<open>ErrHalfOpenState\<close>.
  An Open breaker whose wait has not elapsed yields \<open>ErrOpenState\<close>, a HalfOpen breaker
  with no lease left yields \<open>ErrHalfOpenState\<close>, both without changing the breaker. An
  Open breaker with \<open>now - transitionTime \<ge> WaitDurationInOpenState\<close> is moved to
  HalfOpen by \<open>before\<close>, which then admits the call when a lease is permitted.
\<close>

theorem C3_rejection:
  "(before (time_Now R e) cb = (Some err, cb1) \<longrightarrow>
      cb_Execute R zero ctx cb fn e = (Some (zero, Some err), cb1, e) \<and>
      (err = ErrOpenState \<or> err = ErrHalfOpenState)) \<and>
   (state cb = StateOpen \<and> now - transitionTime cb < WaitDurationInOpenState (config cb) \<longrightarrow>
      before now cb = (Some ErrOpenState, cb)) \<and>
   (state cb = StateHalfOpen \<and> halfOpenLeases cb \<le> 0 \<longrightarrow>
      before now cb = (Some ErrHalfOpenState, cb)) \<and>
   (state cb = StateOpen \<and> now - transitionTime cb \<ge> WaitDurationInOpenState (config cb) \<longrightarrow>
      state (snd (before now cb)) = StateHalfOpen \<and>
      transitionTime (snd (before now cb)) = now \<and>
      fst (before now cb) =
        (if PermittedNumberOfCallsInHalfOpenState (config cb) \<le> 0 then Some ErrHalfOpenState else None))"
  by (auto simp: cb_Execute_def before_def Let_def setStateUnsafe_def split: State.splits if_splits)


text \<open>The definitions that evaluate a breaker over a count window.\<close>

lemmas breaker_eval =
  New_def defaultConfig_def WithMinimumNumberOfCalls_def WithMetricsOnlyMode_def WithWindow_def
  CountWindow_Window_def NewCountWindow_def ring_New_def ring_Next_def
  window_RecordOutcome_def window_Size_def window_CallRates_def window_Reset_def
  CountWindow_RecordOutcome_def CountWindow_Size_def CountWindow_CallRates_def CountWindow_Reset_def
  ring_Len_def incrementOutcome_def decrementOutcome_def
  recorded_outcome_def classify_outcome_def shouldFailCall_def
  after_def before_def evaluateStateTransitionUnsafe_def areThresholdsExceededUnsafe_def
  setStateUnsafe_def IsCallNotPermittedError_def errors_Is_def errors_New_def
  ErrOpenState_def ErrHalfOpenState_def failure_rate_def slow_rate_def
  time_Second_def Let_def

theorem C2_closed_to_open_witness:
  "\<exists>cb1. after 5 () (Some (errors_New ''boom'')) 0
          (New ''cb'' [WithWindow (CountWindow_Window (NewCountWindow 2)), WithMinimumNumberOfCalls 1])
        = Some cb1 \<and> state cb1 = StateOpen"
proof -
  let ?cb = "New ''cb'' [WithWindow (CountWindow_Window (NewCountWindow 2)), WithMinimumNumberOfCalls 1]
               :: (CountWindow, unit) circuitBreakerImpl"
  have closed: "state ?cb = StateClosed" by (simp add: New_def Let_def)
  obtain w1 where w1:
    "window_RecordOutcome (recorded_outcome (config ?cb) () (Some (errors_New ''boom'')) 0) (window ?cb)
       = Some w1"
    "window_Size w1 = 1" "failure_rate w1 = 100" "MinimumNumberOfCalls (config ?cb) = 1"
    "FailureRateThreshold (config ?cb) = 50"
    by (simp add: breaker_eval)
  show ?thesis
    using C2_closed_to_open [OF closed w1(1), of 5] w1(2-5) by simp
qed

text \<open>
  What the state machine does for a breaker that is in the metrics-only state: \<open>before\<close>
  admits the call and \<open>after\<close> records the outcome and leaves the state alone. No
  function of the package puts a breaker into this state.
\<close>

lemma metrics_only_state_admits:
  assumes "state cb = StateMetricsOnly"
  shows "before now cb = (None, cb)"
    and "window_RecordOutcome (recorded_outcome (config cb) res err duration) (window cb) = Some w1
         \<Longrightarrow> after now res err duration cb = Some (cb\<lparr>window := w1\<rparr>)"
  using assms
  by (simp_all add: before_def after_def recorded_outcome_def evaluateStateTransitionUnsafe_def Let_def)

lemma New_starts_closed: "state (New nm opts) = StateClosed"
  by (simp add: New_def Let_def)

text \<open>
  C1, at a failing input. The breaker \<open>New("cb", WithMetricsOnlyMode(),
  WithMinimumNumberOfCalls(1))\<close> has the metrics-only flag set; its first call is
  admitted at instant 0 and fails; \<open>after\<close> records the failure and opens the breaker;
  \<open>before\<close> at instant 2 returns \<open>ErrOpenState\<close>. \<open>New\<close> never reads the flag.
\<close>

theorem C1_metrics_only_rejects:
  "MetricsOnlyMode (config (New ''cb'' [WithMetricsOnlyMode, WithMinimumNumberOfCalls 1]
      :: (CountWindow, unit) circuitBreakerImpl)) \<and>
   fst (before 0 (New ''cb'' [WithMetricsOnlyMode, WithMinimumNumberOfCalls 1]
      :: (CountWindow, unit) circuitBreakerImpl)) = None \<and>
   map_option (\<lambda>cb. fst (before 2 cb))
     (after 1 () (Some (errors_New ''boom'')) 1
        (snd (before 0 (New ''cb'' [WithMetricsOnlyMode, WithMinimumNumberOfCalls 1]
           :: (CountWindow, unit) circuitBreakerImpl))))
     = Some (Some ErrOpenState)"
  by (simp add: breaker_eval)

theorem C3_rejection_witness:
  "cb_Execute \<lparr>time_Now = (\<lambda>e. e), ctx_Err = (\<lambda>c e. None), context_WithTimeout = (\<lambda>c d e. c),
        context_WithCancel = (\<lambda>c e. c), cancel = (\<lambda>c e. e),
        select_Done_or_Timer = (\<lambda>c d e. (False, e))\<rparr> (0 :: int) ()
      ((New ''cb'' [] :: (CountWindow, int) circuitBreakerImpl)\<lparr>state := StateOpen, transitionTime := 3\<rparr>)
      (\<lambda>ctx e. (Inr (7, None), e + 1)) 5
    = (Some (0, Some ErrOpenState),
       (New ''cb'' [])\<lparr>state := StateOpen, transitionTime := 3\<rparr>, 5) \<and>
   before 5 ((New ''cb'' [] :: (CountWindow, int) circuitBreakerImpl)
               \<lparr>state := StateHalfOpen, halfOpenLeases := 0\<rparr>)
    = (Some ErrHalfOpenState, (New ''cb'' [])\<lparr>state := StateHalfOpen, halfOpenLeases := 0\<rparr>) \<and>
   state (snd (before (61 * time_Second)
       ((New ''cb'' [] :: (CountWindow, int) circuitBreakerImpl)\<lparr>state := StateOpen, transitionTime := 3\<rparr>)))
    = StateHalfOpen"
proof -
  let ?R = "\<lparr>time_Now = (\<lambda>e. e), ctx_Err = (\<lambda>c e. None), context_WithTimeout = (\<lambda>c d e. c),
        context_WithCancel = (\<lambda>c e. c), cancel = (\<lambda>c e. e),
        select_Done_or_Timer = (\<lambda>c d e. (False, e))\<rparr> :: (unit, int) runtime"
  let ?open = "(New ''cb'' [] :: (CountWindow, int) circuitBreakerImpl)\<lparr>state := StateOpen, transitionTime := 3\<rparr>"
  let ?half = "(New ''cb'' [] :: (CountWindow, int) circuitBreakerImpl)\<lparr>state := StateHalfOpen, halfOpenLeases := 0\<rparr>"
  have wait: "WaitDurationInOpenState (config (New ''cb'' [] :: (CountWindow, int) circuitBreakerImpl))
      = 60000000000"
    by (simp add: New_def defaultConfig_def Let_def time_Second_def)
  have b: "before (time_Now ?R 5) ?open = (Some ErrOpenState, ?open)"
    using C3_rejection [of ?R 5 ?open ErrOpenState ?open 0 "()" "\<lambda>ctx e. (Inr (7, None), e + 1)" 5]
    by (simp add: wait time_Second_def)
  have 1: "cb_Execute ?R 0 () ?open (\<lambda>ctx e. (Inr (7, None), e + 1)) 5 = (Some (0, Some ErrOpenState), ?open, 5)"
    using C3_rejection [of ?R 5 ?open ErrOpenState ?open 0 "()" "\<lambda>ctx e. (Inr (7, None), e + 1)" 5] b
    by simp
  have 2: "before 5 ?half = (Some ErrHalfOpenState, ?half)"
    using C3_rejection [of ?R 5 ?half ErrOpenState ?half 0 "()" "\<lambda>ctx e. (Inr (7, None), e + 1)" 5]
    by simp
  have 3: "state (snd (before (61 * time_Second) ?open)) = StateHalfOpen"
    using C3_rejection [of ?R 5 ?open ErrOpenState ?open 0 "()" "\<lambda>ctx e. (Inr (7, None), e + 1)" "61 * time_Second"]
    by (simp add: wait time_Second_def)
  show ?thesis using 1 2 3 by simp
qed

section \<open>The retry engine\<close>

declare retry_loop.simps [simp del]










lemma executeAttempt_nil_error:
  assumes "ctx_Err R (attemptCtx_of R ctx p e) e = None"
    and "fn (attemptCtx_of R ctx p e) e = (Inr (v, None), e1)"
  shows "executeAttempt R ctx p n fn zero e =
     (if selects_retry p v
      then (Inr \<lparr>result = zero,
                 attempt = \<lparr>PolicyName = name p, Number = n, Timestamp = time_Now R e,
                            Duration = time_Now R e1 - time_Now R e, Status = AttemptStatusError,
                            FailureReason = AttemptFailureReasonResult,
                            Error_of = Some ErrResultPredicateRetry, Retryable = True\<rparr>,
                 success = False, retryable = True\<rparr>,
            cancel R (attemptCtx_of R ctx p e) e1)
      else (Inr \<lparr>result = v,
                 attempt = \<lparr>PolicyName = name p, Number = n, Timestamp = time_Now R e,
                            Duration = time_Now R e1 - time_Now R e, Status = AttemptStatusSuccess,
                            FailureReason = [], Error_of = None, Retryable = False\<rparr>,
                 success = True, retryable = False\<rparr>,
            cancel R (attemptCtx_of R ctx p e) e1))"
  using assms
  by (simp add: executeAttempt_def safeExecute_def attemptCtx_of_def selects_retry_def Let_def)

lemma iteration_records:
  assumes "executeAttempt R ctx p (attemptCount st) fn zero (world st) = (Inr ao, e1)"
    and "\<not> success ao"
  shows "Attempts (retryErr (state_after (iteration R ctx p wait fn zero st)))
           = Attempts (retryErr st) @ [attempt ao] \<and>
         take (Suc (length (calls st))) (calls (state_after (iteration R ctx p wait fn zero st)))
           = calls st @ [Metrics_RecordAttempt (attempt ao)]"
  using assms
  by (auto simp: iteration_def state_after_def Let_def split: prod.splits option.splits)

text \<open>
  C6. Take any pass through the loop in which the attempt context is not yet done and
  \<open>fn\<close> returns the value \<open>v\<close> with a nil error. If the result predicate is set and
  true of \<open>v\<close>, the attempt is a failure with status \<open>error\<close>, error
  \<open>ErrResultPredicateRetry\<close>, failure reason \<open>result\<close> and \<open>Retryable\<close> true; it is
  reported to the metrics and appended to the attempts of the \<open>RetryError\<close>. If the
  predicate is absent or false of \<open>v\<close>, the attempt is a success and \<open>execute\<close> hands
  back \<open>v\<close> with a nil error, reporting the attempt and then an Outcome whose status is
  \<open>success\<close>.
\<close>

theorem C6_result_predicate:
  assumes "ctx_Err R (attemptCtx_of R ctx p (world st)) (world st) = None"
    and "fn (attemptCtx_of R ctx p (world st)) (world st) = (Inr (v, None), e1)"
  shows "\<exists>ao e2. executeAttempt R ctx p (attemptCount st) fn zero (world st) = (Inr ao, e2) \<and>
           Number (attempt ao) = attemptCount st \<and>
           (if selects_retry p v
            then \<not> success ao \<and> retryable ao \<and>
                 Status (attempt ao) = ''error'' \<and>
                 Error_of (attempt ao) = Some ErrResultPredicateRetry \<and>
                 FailureReason (attempt ao) = ''result'' \<and>
                 Retryable (attempt ao) \<and>
                 Attempts (retryErr (state_after (iteration R ctx p wait fn zero st)))
                   = Attempts (retryErr st) @ [attempt ao] \<and>
                 take (Suc (length (calls st))) (calls (state_after (iteration R ctx p wait fn zero st)))
                   = calls st @ [Metrics_RecordAttempt (attempt ao)]
            else success ao \<and> result ao = v \<and> Status (attempt ao) = ''success'' \<and>
                 handed_back (run_deferred R m t0 (retry_loop R ctx p wait fn zero st))
                   = Returned v None \<and>
                 (\<exists>out. reported (run_deferred R m t0 (retry_loop R ctx p wait fn zero st))
                          = calls st @ [Metrics_RecordAttempt (attempt ao), Metrics_RecordOutcome out] \<and>
                        Outcome_Status out = ''success'' \<and> TotalAttempts out = attemptCount st))"
proof (cases "selects_retry p v")
  case True
  obtain ao e2 where ao: "executeAttempt R ctx p (attemptCount st) fn zero (world st) = (Inr ao, e2)"
    "\<not> success ao" "retryable ao" "Status (attempt ao) = ''error''"
    "Error_of (attempt ao) = Some ErrResultPredicateRetry" "FailureReason (attempt ao) = ''result''"
    "Retryable (attempt ao)" "Number (attempt ao) = attemptCount st"
    using executeAttempt_nil_error
      [where fn = fn and e = "world st" and n = "attemptCount st" and zero = zero, OF assms] True
    by (simp add: AttemptStatusError_def AttemptFailureReasonResult_def)
  show ?thesis
    using ao iteration_records [OF ao(1,2), of wait] True by simp
next
  case False
  obtain ao e2 where ao: "executeAttempt R ctx p (attemptCount st) fn zero (world st) = (Inr ao, e2)"
    "success ao" "result ao = v" "Status (attempt ao) = ''success''"
    "Number (attempt ao) = attemptCount st"
    using executeAttempt_nil_error
      [where fn = fn and e = "world st" and n = "attemptCount st" and zero = zero, OF assms] False
    by (simp add: AttemptStatusSuccess_def)
  have it: "iteration R ctx p wait fn zero st =
      Inl (Returned v None,
           st\<lparr>world := e2, calls := calls st @ [Metrics_RecordAttempt (attempt ao)],
              outcome := (outcome st)\<lparr>Outcome_Status := OutcomeStatusSuccess\<rparr>\<rparr>)"
    using ao by (simp add: iteration_def Let_def)
  have "retry_loop R ctx p wait fn zero st =
      (Returned v None,
           st\<lparr>world := e2, calls := calls st @ [Metrics_RecordAttempt (attempt ao)],
              outcome := (outcome st)\<lparr>Outcome_Status := OutcomeStatusSuccess\<rparr>\<rparr>)"
    by (subst retry_loop.simps) (simp add: it)
  then show ?thesis
    using ao False by (simp add: run_deferred_def OutcomeStatusSuccess_def)
qed

text \<open>
  C7. Take any pass through the loop in which the attempt fails, is retryable, attempts
  remain, and the waiter returns the error \<open>cause\<close> (\<open>retry.Execute\<close> passes
  \<open>contextWaiter\<close>, which returns \<open>ctx.Err()\<close> when the wait was interrupted). Then
  \<open>execute\<close> hands back the \<open>RetryError\<close> whose attempts are those made so far and
  whose \<open>TerminationError\<close> is \<open>cause\<close>; the only calls on the reporter after this
  attempt's record is the Outcome, with failure reason \<open>timeout\<close> when \<open>cause\<close> is
  \<open>DeadlineExceeded\<close> and \<open>canceled\<close> otherwise; and the outside state is the one
  the waiter left, so \<open>fn\<close> did not run again and no backoff was recorded.
\<close>

theorem C7_cancelled_backoff:
  assumes "executeAttempt R ctx p (attemptCount st) fn zero (world st) = (Inr ao, e1)"
    and "\<not> success ao" and "retryable ao" and "attemptCount st < maxAttempts p"
    and "backoff p = Some b" and "b (word_of_int (attemptCount st)) e1 = (d, e2)"
    and "wait d e2 = (Some cause, e3)"
  shows "handed_back (run_deferred R m t0 (retry_loop R ctx p wait fn zero st))
           = Returned zero (Some \<lparr>Attempts = Attempts (retryErr st) @ [attempt ao],
                                   TerminationError = Some cause\<rparr>) \<and>
         final_world (run_deferred R m t0 (retry_loop R ctx p wait fn zero st)) = e3 \<and>
         (\<exists>out. reported (run_deferred R m t0 (retry_loop R ctx p wait fn zero st))
                  = calls st @ [Metrics_RecordAttempt (attempt ao), Metrics_RecordOutcome out] \<and>
                Outcome_FailureReason out =
                  (if errors_Is (Some cause) (Some context_DeadlineExceeded)
                   then ''timeout'' else ''canceled'') \<and>
                Outcome_Status out = Outcome_Status (outcome st) \<and>
                TotalAttempts out = attemptCount st)"
proof -
  let ?st3 = "st\<lparr>world := e3,
      calls := calls st @ [Metrics_RecordAttempt (attempt ao)],
      retryErr := \<lparr>Attempts = Attempts (retryErr st) @ [attempt ao], TerminationError = Some cause\<rparr>,
      outcome := (outcome st)\<lparr>Outcome_FailureReason := classifyContextError (Some cause)\<rparr>\<rparr>"
  have it: "iteration R ctx p wait fn zero st =
      Inl (Returned zero (Some \<lparr>Attempts = Attempts (retryErr st) @ [attempt ao],
                                TerminationError = Some cause\<rparr>), ?st3)"
    using assms by (simp add: iteration_def Let_def)
  have "retry_loop R ctx p wait fn zero st =
      (Returned zero (Some \<lparr>Attempts = Attempts (retryErr st) @ [attempt ao],
                                TerminationError = Some cause\<rparr>), ?st3)"
    by (subst retry_loop.simps) (simp add: it)
  then show ?thesis
    by (simp add: run_deferred_def classifyContextError_def OutcomeFailureReasonTimeout_def
        OutcomeFailureReasonCanceled_def)
qed

lemma contextWaiter_interrupted:
  "select_Done_or_Timer R ctx d e = (True, e1) \<Longrightarrow> contextWaiter R ctx d e = (ctx_Err R ctx e1, e1)"
  by (simp add: contextWaiter_def)

text \<open>The definitions that evaluate a run of the engine in the concrete scenario.\<close>

lemmas retry_eval =
  demo_runtime_def demo_policy_def failing_fn_def value_fn_def
  execute_def run_deferred_def initial_state_def iteration_def executeAttempt_def safeExecute_def
  contextWaiter_def metricsReporter_def ShouldRetryError_def classifyAttemptFailure_def
  classifyContextError_def errors_Is_def errors_New_def context_DeadlineExceeded_def
  context_Canceled_def Fixed_Next_def NewFixed_def Validate_def attemptCtx_of_def
  AttemptStatusError_def AttemptStatusSuccess_def AttemptFailureReasonError_def
  AttemptFailureReasonTimeout_def AttemptFailureReasonCanceled_def AttemptFailureReasonResult_def
  OutcomeStatusError_def OutcomeStatusSuccess_def OutcomeFailureReasonExhausted_def
  OutcomeFailureReasonTimeout_def OutcomeFailureReasonCanceled_def
  OutcomeFailureReasonNonRetryable_def selects_retry_def WithBackoff_def
  ErrResultPredicateRetry_def Let_def


theorem C6_result_predicate_witness:
  "(\<exists>ao e2. executeAttempt demo_runtime () demo_policy 1 (value_fn (- 1)) 0 0 = (Inr ao, e2) \<and>
      \<not> success ao \<and> Error_of (attempt ao) = Some ErrResultPredicateRetry \<and>
      FailureReason (attempt ao) = ''result'' \<and> Retryable (attempt ao)) \<and>
   handed_back (execute demo_runtime () () demo_policy (contextWaiter demo_runtime ()) (value_fn 5) 0 0)
     = Returned 5 None \<and>
   (\<exists>a out. reported (execute demo_runtime () () demo_policy (contextWaiter demo_runtime ()) (value_fn 5) 0 0)
     = [Metrics_RecordAttempt a, Metrics_RecordOutcome out] \<and> Outcome_Status out = ''success'')"
proof -
  let ?st = "initial_state demo_policy 0 :: int loop_state"
  have c: "ctx_Err demo_runtime (attemptCtx_of demo_runtime () demo_policy (world ?st)) (world ?st) = None"
    by (simp add: demo_runtime_def initial_state_def)
  have f1: "value_fn (- 1) (attemptCtx_of demo_runtime () demo_policy (world ?st)) (world ?st)
      = (Inr (- 1, None), 4)"
    by (simp add: value_fn_def initial_state_def)
  have f2: "value_fn 5 (attemptCtx_of demo_runtime () demo_policy (world ?st)) (world ?st)
      = (Inr (5, None), 4)"
    by (simp add: value_fn_def initial_state_def)
  have s1: "selects_retry demo_policy (- 1)" by (simp add: selects_retry_def demo_policy_def)
  have s2: "\<not> selects_retry demo_policy 5" by (simp add: selects_retry_def demo_policy_def)
  have 1: "\<exists>ao e2. executeAttempt demo_runtime () demo_policy 1 (value_fn (- 1)) 0 0 = (Inr ao, e2) \<and>
      \<not> success ao \<and> Error_of (attempt ao) = Some ErrResultPredicateRetry \<and>
      FailureReason (attempt ao) = ''result'' \<and> Retryable (attempt ao)"
    using C6_result_predicate
      [where fn = "value_fn (- 1)" and st = ?st and R = demo_runtime and p = demo_policy
         and zero = 0 and wait = "contextWaiter demo_runtime ()" and m = "()" and ?t0.0 = 0,
       OF c f1] s1
    by (auto simp: initial_state_def)
  have 2: "handed_back (execute demo_runtime () () demo_policy (contextWaiter demo_runtime ()) (value_fn 5) 0 0)
       = Returned 5 None \<and>
     (\<exists>a out. reported (execute demo_runtime () () demo_policy (contextWaiter demo_runtime ()) (value_fn 5) 0 0)
       = [Metrics_RecordAttempt a, Metrics_RecordOutcome out] \<and> Outcome_Status out = ''success'')"
    using C6_result_predicate
      [where fn = "value_fn 5" and st = ?st and R = demo_runtime and p = demo_policy
         and zero = 0 and wait = "contextWaiter demo_runtime ()" and m = "()" and ?t0.0 = 0,
       OF c f2] s2
    by (auto simp: execute_def metricsReporter_def demo_policy_def initial_state_def demo_runtime_def)
  show ?thesis using 1 2 by simp
qed

theorem C7_cancelled_backoff_witness:
  "\<exists>a out.
     handed_back (execute demo_runtime () () (WithBackoff (Some (\<lambda>n e. (6, e))) demo_policy)
        (contextWaiter demo_runtime ()) failing_fn 0 0)
       = Returned 0 (Some \<lparr>Attempts = [a], TerminationError = Some context_DeadlineExceeded\<rparr>) \<and>
     reported (execute demo_runtime () () (WithBackoff (Some (\<lambda>n e. (6, e))) demo_policy)
        (contextWaiter demo_runtime ()) failing_fn 0 0)
       = [Metrics_RecordAttempt a, Metrics_RecordOutcome out] \<and>
     Outcome_FailureReason out = ''timeout'' \<and> TotalAttempts out = 1"
proof -
  let ?p = "WithBackoff (Some (\<lambda>n e. (6, e))) demo_policy :: (int, int, unit) Policy"
  let ?st = "initial_state ?p 0 :: int loop_state"
  obtain ao where ao:
    "executeAttempt demo_runtime () ?p (attemptCount ?st) failing_fn 0 (world ?st) = (Inr ao, 4)"
    "\<not> success ao" "retryable ao"
    by (simp add: retry_eval)
  have lt: "attemptCount ?st < maxAttempts ?p"
    by (simp add: initial_state_def WithBackoff_def demo_policy_def)
  have b: "backoff ?p = Some (\<lambda>n e. (6, e))" by (simp add: WithBackoff_def)
  have w: "contextWaiter demo_runtime () 6 4 = (Some context_DeadlineExceeded, 10)"
    by (simp add: contextWaiter_def demo_runtime_def)
  have is_deadline: "errors_Is (Some context_DeadlineExceeded) (Some context_DeadlineExceeded)"
    by (simp add: errors_Is_def context_DeadlineExceeded_def errors_New_def)
  show ?thesis
    using C7_cancelled_backoff
      [where R = demo_runtime and ctx = "()" and p = ?p and st = ?st and fn = failing_fn
         and zero = 0 and wait = "contextWaiter demo_runtime ()" and m = "()" and ?t0.0 = 0
         and b = "\<lambda>n e. (6, e)" and d = 6 and ?e2.0 = 4 and cause = context_DeadlineExceeded
         and ?e3.0 = 10,
       OF ao lt b _ w]
      is_deadline
    by (auto simp: execute_def metricsReporter_def demo_runtime_def initial_state_def
        WithBackoff_def demo_policy_def)
qed

end
